theory Spec2Isabelle
  imports Main "HOL-Library.Monad_Syntax"
begin

section \<open>Strings and character codes\<close>

text \<open>
  A JavaScript string is a sequence of UTF-16 code units; \<open>str.charCodeAt(i)\<close> is the
  code unit at index \<open>i\<close>, and \<open>NaN\<close> outside the string (modelled as \<open>None\<close>, which
  is different from every code, as \<open>NaN\<close> is).
\<close>

type_synonym jsstring = "nat list"

definition charCodeAt :: "jsstring \<Rightarrow> int \<Rightarrow> nat option" where
  "charCodeAt s i = (if 0 \<le> i \<and> i < int (length s) then Some (s ! nat i) else None)"

text \<open>The members of the enumeration \<open>CharCode\<close> that the buffer uses.\<close>

definition Tab :: nat where "Tab = 9"
definition LineFeed :: nat where "LineFeed = 10"
definition CarriageReturn :: nat where "CarriageReturn = 13"

section \<open>The line-index builder\<close>

definition createUintArray :: "int list \<Rightarrow> int list" where
  "createUintArray arr =
     (if arr \<noteq> [] \<and> last arr < 65536
      then map (\<lambda>x. x mod 65536) arr
      else map (\<lambda>x. x mod 4294967296) arr)"

function createLineStartsFast_loop :: "jsstring \<Rightarrow> nat \<Rightarrow> int list \<Rightarrow> int list" where
  "createLineStartsFast_loop str i r =
     (if i < length str then
        (if str ! i = CarriageReturn then
           (if i + 1 < length str \<and> str ! (i + 1) = LineFeed
            then createLineStartsFast_loop str (i + 2) (r @ [int i + 2])
            else createLineStartsFast_loop str (i + 1) (r @ [int i + 1]))
         else if str ! i = LineFeed
           then createLineStartsFast_loop str (i + 1) (r @ [int i + 1])
         else createLineStartsFast_loop str (i + 1) r)
      else r)"
  by pat_completeness auto
termination
  by (relation "measure (\<lambda>(str, i, r). length str - i)") auto

declare createLineStartsFast_loop.simps [simp del]

definition createLineStartsFast :: "jsstring \<Rightarrow> bool \<Rightarrow> int list" where
  "createLineStartsFast str readonly =
     (let r = createLineStartsFast_loop str 0 [0]
      in if readonly then createUintArray r else r)"

record LineStarts =
  lineStarts :: "int list"
  cr :: int
  lf :: int
  crlf :: int
  isBasicASCII :: bool

function createLineStarts_loop ::
  "jsstring \<Rightarrow> nat \<Rightarrow> int list \<times> int \<times> int \<times> int \<times> bool \<Rightarrow> int list \<times> int \<times> int \<times> int \<times> bool" where
  "createLineStarts_loop str i (r, ncr, nlf, ncrlf, ascii) =
     (if i < length str then
        (if str ! i = CarriageReturn then
           (if i + 1 < length str \<and> str ! (i + 1) = LineFeed
            then createLineStarts_loop str (i + 2) (r @ [int i + 2], ncr, nlf, ncrlf + 1, ascii)
            else createLineStarts_loop str (i + 1) (r @ [int i + 1], ncr + 1, nlf, ncrlf, ascii))
         else if str ! i = LineFeed
           then createLineStarts_loop str (i + 1) (r @ [int i + 1], ncr, nlf + 1, ncrlf, ascii)
         else createLineStarts_loop str (i + 1)
                (r, ncr, nlf, ncrlf,
                 (if ascii then
                    (if str ! i \<noteq> Tab \<and> (str ! i < 32 \<or> str ! i > 126) then False else ascii)
                  else ascii)))
      else (r, ncr, nlf, ncrlf, ascii))"
  by pat_completeness auto
termination
  by (relation "measure (\<lambda>(str, i, acc). length str - i)") auto

declare createLineStarts_loop.simps [simp del]

text \<open>
  The first argument is a scratch array of the caller; the function clears it before
  use and again before it returns, so only the string decides the result.
\<close>

definition createLineStarts :: "int list \<Rightarrow> jsstring \<Rightarrow> LineStarts" where
  "createLineStarts r0 str =
     (case createLineStarts_loop str 0 ([0], 0, 0, 0, True) of
        (r, ncr, nlf, ncrlf, ascii) \<Rightarrow>
          \<lparr> lineStarts = createUintArray r, cr = ncr, lf = nlf, crlf = ncrlf,
            isBasicASCII = ascii \<rparr>)"


subsection \<open>What the builder computes\<close>

text \<open>
  The reference notions, stated on the string alone. Position \<open>p\<close> (with
  \<open>1 \<le> p \<le> length str\<close>) is immediately after a line break when the character before
  it is a line feed, or a carriage return that is not followed by a line feed: a
  \<open>\r\n\<close> pair is one break, which ends after the \<open>\n\<close>. A break is a lone \<open>\r\<close>, a
  lone \<open>\n\<close> or a \<open>\r\n\<close> pair, named by the index of its first character.
\<close>

definition isBreakEnd :: "jsstring \<Rightarrow> nat \<Rightarrow> bool" where
  "isBreakEnd str p \<longleftrightarrow>
     0 < p \<and> p \<le> length str \<and>
     (str ! (p - 1) = LineFeed \<or>
      (str ! (p - 1) = CarriageReturn \<and> \<not> (p < length str \<and> str ! p = LineFeed)))"

lemma filter_upt_first: "i < n \<Longrightarrow> filter P [i..<n] = (if P i then [i] else []) @ filter P [Suc i..<n]"
  by (simp add: upt_conv_Cons)

lemma createLineStartsFast_loop_eq:
  "createLineStartsFast_loop str i r = r @ map int (filter (isBreakEnd str) [Suc i..<Suc (length str)])"
proof (induction str i r rule: createLineStartsFast_loop.induct)
  case (1 str i r)
  show ?case
  proof (cases "i < length str")
    case False
    then show ?thesis by (subst createLineStartsFast_loop.simps) simp
  next
    case lt: True
    note f1 = filter_upt_first[of "Suc i" "Suc (length str)" "isBreakEnd str"]
    show ?thesis
    proof (cases "str ! i = CarriageReturn")
      case cr: True
      show ?thesis
      proof (cases "i + 1 < length str \<and> str ! (i + 1) = LineFeed")
        case True
        note f2 = filter_upt_first[of "Suc (Suc i)" "Suc (length str)" "isBreakEnd str"]
        have b1: "\<not> isBreakEnd str (Suc i)" using True cr by (simp add: isBreakEnd_def LineFeed_def CarriageReturn_def)
        have b2: "isBreakEnd str (Suc (Suc i))" using True by (simp add: isBreakEnd_def)
        have step: "createLineStartsFast_loop str i r = createLineStartsFast_loop str (i + 2) (r @ [int i + 2])"
          using lt cr True by (subst createLineStartsFast_loop.simps) simp
        show ?thesis
          unfolding step "1.IH"(1)[OF lt cr True] using lt True b1 b2 f1 f2 by simp
      next
        case False
        have b1: "isBreakEnd str (Suc i)" using False cr lt by (simp add: isBreakEnd_def)
        have step: "createLineStartsFast_loop str i r = createLineStartsFast_loop str (i + 1) (r @ [int i + 1])"
          using lt cr False by (subst createLineStartsFast_loop.simps) auto
        show ?thesis
          unfolding step "1.IH"(2)[OF lt cr False] using lt b1 f1 by simp
      qed
    next
      case ncr: False
      show ?thesis
      proof (cases "str ! i = LineFeed")
        case True
        have b1: "isBreakEnd str (Suc i)" using True lt by (simp add: isBreakEnd_def)
        have step: "createLineStartsFast_loop str i r = createLineStartsFast_loop str (i + 1) (r @ [int i + 1])"
          using lt ncr True by (subst createLineStartsFast_loop.simps) simp
        show ?thesis
          unfolding step "1.IH"(3)[OF lt ncr True] using lt b1 f1 by simp
      next
        case False
        have b1: "\<not> isBreakEnd str (Suc i)" using False ncr lt by (simp add: isBreakEnd_def)
        have step: "createLineStartsFast_loop str i r = createLineStartsFast_loop str (i + 1) r"
          using lt ncr False by (subst createLineStartsFast_loop.simps) simp
        show ?thesis
          unfolding step "1.IH"(4)[OF lt ncr False] using lt b1 f1 by simp
      qed
    qed
  qed
qed


definition isLoneCR :: "jsstring \<Rightarrow> nat \<Rightarrow> bool" where
  "isLoneCR str i \<longleftrightarrow>
     str ! i = CarriageReturn \<and> \<not> (i + 1 < length str \<and> str ! (i + 1) = LineFeed)"

definition isCRLF :: "jsstring \<Rightarrow> nat \<Rightarrow> bool" where
  "isCRLF str i \<longleftrightarrow>
     str ! i = CarriageReturn \<and> i + 1 < length str \<and> str ! (i + 1) = LineFeed"

definition isLoneLF :: "jsstring \<Rightarrow> nat \<Rightarrow> bool" where
  "isLoneLF str i \<longleftrightarrow> str ! i = LineFeed \<and> \<not> (0 < i \<and> str ! (i - 1) = CarriageReturn)"

definition basicChar :: "nat \<Rightarrow> bool" where
  "basicChar c \<longleftrightarrow> c = CarriageReturn \<or> c = LineFeed \<or> c = Tab \<or> (32 \<le> c \<and> c \<le> 126)"

definition midCRLF :: "jsstring \<Rightarrow> nat \<Rightarrow> bool" where
  "midCRLF str i \<longleftrightarrow> 0 < i \<and> i < length str \<and> str ! (i - 1) = CarriageReturn \<and> str ! i = LineFeed"

definition loopSpec ::
  "jsstring \<Rightarrow> nat \<Rightarrow> int list \<times> int \<times> int \<times> int \<times> bool \<Rightarrow> int list \<times> int \<times> int \<times> int \<times> bool" where
  "loopSpec str i acc =
     (case acc of (r, a, b, c, f) \<Rightarrow>
       (r @ map int (filter (isBreakEnd str) [Suc i..<Suc (length str)]),
        a + int (length (filter (isLoneCR str) [i..<length str])),
        b + int (length (filter (isLoneLF str) [i..<length str])),
        c + int (length (filter (isCRLF str) [i..<length str])),
        f \<and> list_all (\<lambda>k. basicChar (str ! k)) [i..<length str]))"

lemma loopSpec_done: "\<not> i < length str \<Longrightarrow> loopSpec str i acc = acc"
  by (cases acc) (simp add: loopSpec_def)

lemma loopSpec_step:
  assumes "i < length str"
  shows "loopSpec str i (r, a, b, c, f) =
         loopSpec str (Suc i)
           (if isBreakEnd str (Suc i) then r @ [int i + 1] else r,
            if isLoneCR str i then a + 1 else a,
            if isLoneLF str i then b + 1 else b,
            if isCRLF str i then c + 1 else c,
            f \<and> basicChar (str ! i))"
  using assms
    filter_upt_first[of "Suc i" "Suc (length str)" "isBreakEnd str"]
    filter_upt_first[of i "length str" "isLoneCR str"]
    filter_upt_first[of i "length str" "isLoneLF str"]
    filter_upt_first[of i "length str" "isCRLF str"]
  by (simp add: loopSpec_def upt_conv_Cons[of i "length str"] del: upt_Suc)

lemma createLineStarts_loop_eq:
  "\<not> midCRLF str i \<Longrightarrow> createLineStarts_loop str i acc = loopSpec str i acc"
proof (induction str i acc rule: createLineStarts_loop.induct)
  case (1 str i r a b c f)
  show ?case
  proof (cases "i < length str")
    case False
    then show ?thesis
      by (subst createLineStarts_loop.simps) (simp add: loopSpec_done)
  next
    case lt: True
    have e1: "i + 1 = Suc i" "int i + 1 = int (Suc i)" by simp_all
    show ?thesis
    proof (cases "str ! i = CarriageReturn")
      case cr: True
      show ?thesis
      proof (cases "i + 1 < length str \<and> str ! (i + 1) = LineFeed")
        case True
        have lt2: "Suc i < length str" using True by simp
        have e2: "i + 2 = Suc (Suc i)" "int i + 2 = int (Suc i) + 1" by simp_all
        have pre: "\<not> midCRLF str (i + 2)"
          using True by (simp add: midCRLF_def LineFeed_def CarriageReturn_def)
        have facts: "isBreakEnd str (Suc i) = False" "isBreakEnd str (Suc (Suc i)) = True"
           "isLoneCR str i = False" "isCRLF str i = True" "isLoneLF str i = False"
           "isLoneCR str (Suc i) = False" "isCRLF str (Suc i) = False" "isLoneLF str (Suc i) = False"
           "basicChar (str ! i) = True" "basicChar (str ! Suc i) = True"
          using True cr
          by (simp_all add: isBreakEnd_def isLoneCR_def isCRLF_def isLoneLF_def basicChar_def
                LineFeed_def CarriageReturn_def)
        have step: "createLineStarts_loop str i (r, a, b, c, f) =
                    createLineStarts_loop str (i + 2) (r @ [int i + 2], a, b, c + 1, f)"
          using lt cr True by (subst createLineStarts_loop.simps) simp
        have "loopSpec str i (r, a, b, c, f) = loopSpec str (Suc i) (r, a, b, c + 1, f)"
          by (subst loopSpec_step[OF lt]) (simp only: facts if_True if_False simp_thms)
        also have "\<dots> = loopSpec str (Suc (Suc i)) (r @ [int (Suc i) + 1], a, b, c + 1, f)"
          by (subst loopSpec_step[OF lt2]) (simp only: facts if_True if_False simp_thms)
        finally show ?thesis
          unfolding step "1.IH"(1)[OF lt cr True pre] by (simp only: e2)
      next
        case False
        have pre: "\<not> midCRLF str (i + 1)"
          using False by (simp add: midCRLF_def)
        have facts: "isBreakEnd str (Suc i) = True" "isLoneCR str i = True" "isCRLF str i = False"
           "isLoneLF str i = False" "basicChar (str ! i) = True"
          using False cr lt
          by (simp_all add: isBreakEnd_def isLoneCR_def isCRLF_def isLoneLF_def basicChar_def
                LineFeed_def CarriageReturn_def)
        have step: "createLineStarts_loop str i (r, a, b, c, f) =
                    createLineStarts_loop str (i + 1) (r @ [int i + 1], a + 1, b, c, f)"
          using lt cr False by (subst createLineStarts_loop.simps) auto
        have "loopSpec str i (r, a, b, c, f) = loopSpec str (Suc i) (r @ [int i + 1], a + 1, b, c, f)"
          by (subst loopSpec_step[OF lt]) (simp only: facts if_True if_False simp_thms)
        then show ?thesis
          unfolding step "1.IH"(2)[OF lt cr False pre] by (simp only: e1)
      qed
    next
      case ncr: False
      have pre: "\<not> midCRLF str (i + 1)"
        using ncr by (simp add: midCRLF_def)
      show ?thesis
      proof (cases "str ! i = LineFeed")
        case True
        have nmid: "\<not> (0 < i \<and> str ! (i - 1) = CarriageReturn)"
          using "1.prems" True lt by (auto simp add: midCRLF_def)
        have facts: "isBreakEnd str (Suc i) = True" "isLoneCR str i = False" "isCRLF str i = False"
           "isLoneLF str i = True" "basicChar (str ! i) = True"
          using True ncr lt nmid
          by (simp_all add: isBreakEnd_def isLoneCR_def isCRLF_def isLoneLF_def basicChar_def)
        have step: "createLineStarts_loop str i (r, a, b, c, f) =
                    createLineStarts_loop str (i + 1) (r @ [int i + 1], a, b + 1, c, f)"
          using lt ncr True by (subst createLineStarts_loop.simps) simp
        have "loopSpec str i (r, a, b, c, f) = loopSpec str (Suc i) (r @ [int i + 1], a, b + 1, c, f)"
          by (subst loopSpec_step[OF lt]) (simp only: facts if_True if_False simp_thms)
        then show ?thesis
          unfolding step "1.IH"(3)[OF lt ncr True pre] by (simp only: e1)
      next
        case False
        have facts: "isBreakEnd str (Suc i) = False" "isLoneCR str i = False" "isCRLF str i = False"
           "isLoneLF str i = False"
          using False ncr lt
          by (simp_all add: isBreakEnd_def isLoneCR_def isCRLF_def isLoneLF_def)
        have bc: "basicChar (str ! i) \<longleftrightarrow> \<not> (str ! i \<noteq> Tab \<and> (str ! i < 32 \<or> str ! i > 126))"
          using False ncr by (auto simp add: basicChar_def Tab_def)
        have flag: "(if f then (if str ! i \<noteq> Tab \<and> (str ! i < 32 \<or> str ! i > 126) then False else f)
                     else f) = (f \<and> basicChar (str ! i))"
          using bc by simp
        have step: "createLineStarts_loop str i (r, a, b, c, f) =
                    createLineStarts_loop str (i + 1) (r, a, b, c, f \<and> basicChar (str ! i))"
          using lt ncr False by (subst createLineStarts_loop.simps) (simp only: flag if_True if_False)
        have "loopSpec str i (r, a, b, c, f) = loopSpec str (Suc i) (r, a, b, c, f \<and> basicChar (str ! i))"
          by (subst loopSpec_step[OF lt]) (simp only: facts if_True if_False simp_thms)
        moreover have "createLineStarts_loop str (i + 1) (r, a, b, c, f \<and> basicChar (str ! i)) =
                       loopSpec str (i + 1) (r, a, b, c, f \<and> basicChar (str ! i))"
          using "1.IH"(4)[OF lt ncr False pre] by (simp only: flag)
        ultimately show ?thesis
          unfolding step by (simp only: e1)
      qed
    qed
  qed
qed


definition lineBreakEnds :: "jsstring \<Rightarrow> nat list" where
  "lineBreakEnds str = filter (isBreakEnd str) [1..<Suc (length str)]"

lemma sorted_le_last: "sorted (xs::int list) \<Longrightarrow> x \<in> set xs \<Longrightarrow> x \<le> last xs"
  by (induction xs) (auto split: if_splits)

lemma createUintArray_exact:
  assumes "sorted r" and "\<forall>x\<in>set r. 0 \<le> x \<and> x < 4294967296"
  shows "createUintArray r = r"
proof (cases "r \<noteq> [] \<and> last r < 65536")
  case True
  have "\<forall>x\<in>set r. x mod 65536 = x"
    using True assms sorted_le_last[OF assms(1)] by fastforce
  then show ?thesis using True by (simp add: createUintArray_def map_idI)
next
  case False
  have "\<forall>x\<in>set r. x mod 4294967296 = x"
    using assms by simp
  then show ?thesis using False by (auto simp add: createUintArray_def map_idI)
qed

lemma lineStarts_list_sorted: "sorted_wrt (<) (map int (0 # filter P [1..<n]))"
proof -
  have "sorted_wrt (<) (filter P [1..<n])"
    by (rule sorted_wrt_filter) simp
  moreover have "\<forall>x\<in>set (filter P [1..<n]). 0 < x" by auto
  ultimately have "sorted_wrt (<) (0 # filter P [1..<n])" by simp
  then show ?thesis by (simp only: sorted_wrt_map) simp
qed

lemma lineStarts_list_bounds:
  "\<forall>x\<in>set (map int (0 # filter P [1..<Suc n])). 0 \<le> x \<and> x \<le> int n"
  by auto

lemma createLineStartsFast_loop_0:
  "createLineStartsFast_loop str 0 [0] = map int (0 # lineBreakEnds str)"
  by (simp add: createLineStartsFast_loop_eq lineBreakEnds_def del: upt_Suc)

lemma createLineStartsFast_exact:
  assumes "length str < 4294967296"
  shows "createLineStartsFast str ro = map int (0 # lineBreakEnds str)"
proof -
  have s: "sorted (map int (0 # lineBreakEnds str))"
    unfolding lineBreakEnds_def using lineStarts_list_sorted[of "isBreakEnd str" "Suc (length str)"]
    by (simp add: strict_sorted_iff del: upt_Suc list.map)
  have b: "\<forall>x\<in>set (map int (0 # lineBreakEnds str)). 0 \<le> x \<and> x < 4294967296"
    unfolding lineBreakEnds_def using lineStarts_list_bounds[of "isBreakEnd str" "length str"] assms
    by (auto simp del: upt_Suc)
  show ?thesis
    using createUintArray_exact[OF s b]
    by (simp add: createLineStartsFast_def createLineStartsFast_loop_0 Let_def)
qed

text \<open>
  Claim C6, as the code has it. For every string of fewer than \<open>2^32\<close> code units (the
  range of the \<open>Uint32Array\<close> that holds the result), \<open>createLineStarts\<close> returns the
  strictly increasing array that starts with offset 0 and continues with every position
  immediately after a line break, a \<open>\r\n\<close> pair being one break that ends after both
  characters; the numbers of breaks that are a lone \<open>\r\<close>, a lone \<open>\n\<close> and a \<open>\r\n\<close>
  pair; and a flag \<open>isBasicASCII\<close> that is true iff every character is a carriage
  return, a line feed, a tab or in the printable range 32..126. (The claim asks for the
  flag to be true iff all characters are printable ASCII or tabs; the builder leaves line
  terminators out of that test.)
\<close>

theorem createLineStarts_correct:
  assumes "length str < 4294967296"
  shows "lineStarts (createLineStarts r0 str) = map int (0 # lineBreakEnds str) \<and>
         sorted_wrt (<) (lineStarts (createLineStarts r0 str)) \<and>
         cr (createLineStarts r0 str) = int (length (filter (isLoneCR str) [0..<length str])) \<and>
         lf (createLineStarts r0 str) = int (length (filter (isLoneLF str) [0..<length str])) \<and>
         crlf (createLineStarts r0 str) = int (length (filter (isCRLF str) [0..<length str])) \<and>
         isBasicASCII (createLineStarts r0 str) = list_all basicChar str"
proof -
  have nm: "\<not> midCRLF str 0" by (simp add: midCRLF_def)
  have s: "sorted (map int (0 # lineBreakEnds str))"
    unfolding lineBreakEnds_def using lineStarts_list_sorted[of "isBreakEnd str" "Suc (length str)"]
    by (simp add: strict_sorted_iff del: upt_Suc list.map)
  have b: "\<forall>x\<in>set (map int (0 # lineBreakEnds str)). 0 \<le> x \<and> x < 4294967296"
    unfolding lineBreakEnds_def using lineStarts_list_bounds[of "isBreakEnd str" "length str"] assms
    by (auto simp del: upt_Suc)
  have ex: "createUintArray (map int (0 # lineBreakEnds str)) = map int (0 # lineBreakEnds str)"
    by (rule createUintArray_exact[OF s b])
  have all: "list_all (\<lambda>k. basicChar (str ! k)) [0..<length str] = list_all basicChar str"
    by (auto simp add: list_all_iff all_set_conv_all_nth)
  have lp: "createLineStarts_loop str 0 ([0], 0, 0, 0, True) =
        (map int (0 # lineBreakEnds str),
         int (length (filter (isLoneCR str) [0..<length str])),
         int (length (filter (isLoneLF str) [0..<length str])),
         int (length (filter (isCRLF str) [0..<length str])),
         list_all basicChar str)"
    unfolding createLineStarts_loop_eq[OF nm] loopSpec_def lineBreakEnds_def all[symmetric]
    by (simp del: upt_Suc)
  have sw: "sorted_wrt (<) (map int (0 # lineBreakEnds str))"
    unfolding lineBreakEnds_def by (rule lineStarts_list_sorted)
  show ?thesis
    unfolding createLineStarts_def lp using ex sw by simp
qed

text \<open>The theorem at the string \<open>"a\r\nb\rc\n"\<close>.\<close>

theorem createLineStarts_correct_witness:
  "length [97, 13, 10, 98, 13, 99, 10 :: nat] < 4294967296 \<and>
   lineStarts (createLineStarts [] [97, 13, 10, 98, 13, 99, 10]) = [0, 3, 5, 7] \<and>
   cr (createLineStarts [] [97, 13, 10, 98, 13, 99, 10]) = 1 \<and>
   lf (createLineStarts [] [97, 13, 10, 98, 13, 99, 10]) = 1 \<and>
   crlf (createLineStarts [] [97, 13, 10, 98, 13, 99, 10]) = 1 \<and>
   isBasicASCII (createLineStarts [] [97, 13, 10, 98, 13, 99, 10])"
proof -
  have h: "length [97, 13, 10, 98, 13, 99, 10 :: nat] < 4294967296" by simp
  show ?thesis
    using createLineStarts_correct[OF h, of "[]"]
    by (simp add: lineBreakEnds_def isBreakEnd_def isLoneCR_def isLoneLF_def isCRLF_def
          basicChar_def LineFeed_def CarriageReturn_def Tab_def upt_rec nth_Cons')
qed

text \<open>
  The flag as claim C6 states it fails on the one-character string \<open>"\n"\<close>: the flag
  is true, and the line feed is neither printable nor a tab.
\<close>

theorem createLineStarts_ascii_counterexample:
  "\<not> (isBasicASCII (createLineStarts [] [10]) \<longleftrightarrow>
       list_all (\<lambda>c. c = Tab \<or> (32 \<le> c \<and> c \<le> 126)) [10::nat])"
  by (simp add: createLineStarts_def createLineStarts_loop.simps LineFeed_def CarriageReturn_def Tab_def)



section \<open>Strings, cursors, pieces and buffers\<close>

text \<open>
  \<open>str.substring(a, b)\<close> clamps both indices to the string and swaps them when they
  are out of order; \<open>str.substr(start, len)\<close> counts a negative start from the end.
\<close>

definition substring :: "jsstring \<Rightarrow> int \<Rightarrow> int \<Rightarrow> jsstring" where
  "substring s a b =
     (let n = int (length s);
          a' = min (max a 0) n;
          b' = min (max b 0) n
      in take (nat (max a' b' - min a' b')) (drop (nat (min a' b')) s))"

definition substr :: "jsstring \<Rightarrow> int \<Rightarrow> int \<Rightarrow> jsstring" where
  "substr s start len =
     (let n = int (length s);
          st = (if start < 0 then max (n + start) 0 else min start n)
      in take (nat (min (max len 0) (n - st))) (drop (nat st) s))"

text \<open>
  Reading an array at an index. Outside the array JavaScript yields \<open>undefined\<close>,
  with which no later computation of the buffer is meaningful; the model stops there
  with \<open>None\<close>, as it does where JavaScript raises a \<open>TypeError\<close> (a property of
  \<open>null\<close> or \<open>undefined\<close>). A result \<open>Some v\<close> therefore means that the code ran
  on defined values throughout and returned \<open>v\<close>.
\<close>

definition at :: "'a list \<Rightarrow> int \<Rightarrow> 'a option" where
  "at xs i = (if 0 \<le> i \<and> i < int (length xs) then Some (xs ! nat i) else None)"

record BufferCursor =
  line :: int
  column :: int

text \<open>The fields \<open>start\<close>, \<open>end\<close> and \<open>length\<close> of a piece are \<open>pstart\<close>, \<open>pend\<close>
  and \<open>plength\<close> here.\<close>

record Piece =
  bufferIndex :: nat
  pstart :: BufferCursor
  pend :: BufferCursor
  lineFeedCnt :: int
  plength :: int

definition newPiece :: "nat \<Rightarrow> BufferCursor \<Rightarrow> BufferCursor \<Rightarrow> int \<Rightarrow> int \<Rightarrow> Piece" where
  "newPiece bi st en lfc len =
     \<lparr> bufferIndex = bi, pstart = st, pend = en, lineFeedCnt = lfc, plength = len \<rparr>"

record StringBuffer =
  buffer :: jsstring
  bufLineStarts :: "int list"

definition bufAt :: "StringBuffer list \<Rightarrow> nat \<Rightarrow> StringBuffer option" where
  "bufAt bufs i = (if i < length bufs then Some (bufs ! i) else None)"

definition offsetInBuffer :: "StringBuffer list \<Rightarrow> nat \<Rightarrow> BufferCursor \<Rightarrow> int option" where
  "offsetInBuffer bufs bi cursor =
     do { b \<leftarrow> bufAt bufs bi;
          l \<leftarrow> at (bufLineStarts b) (line cursor);
          Some (l + column cursor) }"

definition getLineFeedCnt ::
  "StringBuffer list \<Rightarrow> nat \<Rightarrow> BufferCursor \<Rightarrow> BufferCursor \<Rightarrow> int option" where
  "getLineFeedCnt bufs bi st en =
     (if column en = 0 then Some (line en - line st)
      else do {
        b \<leftarrow> bufAt bufs bi;
        if line en = int (length (bufLineStarts b)) - 1 then Some (line en - line st)
        else do {
          nextLineStartOffset \<leftarrow> at (bufLineStarts b) (line en + 1);
          l \<leftarrow> at (bufLineStarts b) (line en);
          if nextLineStartOffset > (l + column en) + 1 then Some (line en - line st)
          else if charCodeAt (buffer b) ((l + column en) - 1) = Some 13
            then Some (line en - line st + 1)
            else Some (line en - line st)
        }
      })"

text \<open>
  \<open>low + ((high - low) / 2) | 0\<close>: the sum is half of \<open>low + high\<close>, and \<open>| 0\<close>
  drops its fraction towards zero (line numbers are far below \<open>2^31\<close>, where \<open>| 0\<close>
  would wrap).
\<close>

definition midpoint :: "int \<Rightarrow> int \<Rightarrow> int" where
  "midpoint low high =
     (if 0 \<le> low + high then (low + high) div 2 else - ((- (low + high)) div 2))"

function positionInBuffer_loop ::
  "int list \<Rightarrow> int \<Rightarrow> int \<Rightarrow> int \<Rightarrow> int \<times> int \<Rightarrow> (int \<times> int) option" where
  "positionInBuffer_loop ls offset low high (mid, midStart) =
     (if low \<le> high then
        (case at ls (midpoint low high) of
           None \<Rightarrow> None
         | Some midStart' \<Rightarrow>
             if midpoint low high = high then Some (midpoint low high, midStart')
             else (case at ls (midpoint low high + 1) of
                     None \<Rightarrow> None
                   | Some midStop \<Rightarrow>
                       if offset < midStart'
                         then positionInBuffer_loop ls offset low (midpoint low high - 1)
                                (midpoint low high, midStart')
                       else if offset \<ge> midStop
                         then positionInBuffer_loop ls offset (midpoint low high + 1) high
                                (midpoint low high, midStart')
                       else Some (midpoint low high, midStart')))
      else Some (mid, midStart))"
  by pat_completeness auto
termination
  by (relation "measure (\<lambda>(ls, offset, low, high, m). nat (high - low + 1))")
     (auto simp add: midpoint_def split: if_splits)

declare positionInBuffer_loop.simps [simp del]

definition positionInBuffer :: "StringBuffer list \<Rightarrow> Piece \<Rightarrow> int \<Rightarrow> BufferCursor option" where
  "positionInBuffer bufs p rem =
     do { b \<leftarrow> bufAt bufs (bufferIndex p);
          l \<leftarrow> at (bufLineStarts b) (line (pstart p));
          (mid, midStart) \<leftarrow>
             positionInBuffer_loop (bufLineStarts b) (l + column (pstart p) + rem)
               (line (pstart p)) (line (pend p)) (0, 0);
          Some \<lparr> line = mid, column = (l + column (pstart p) + rem) - midStart \<rparr> }"

definition getAccumulatedValue :: "StringBuffer list \<Rightarrow> Piece \<Rightarrow> int \<Rightarrow> int option" where
  "getAccumulatedValue bufs p index =
     (if index < 0 then Some 0
      else do {
        b \<leftarrow> bufAt bufs (bufferIndex p);
        if line (pstart p) + index + 1 > line (pend p)
        then do { e \<leftarrow> at (bufLineStarts b) (line (pend p));
                  s \<leftarrow> at (bufLineStarts b) (line (pstart p));
                  Some (e + column (pend p) - s - column (pstart p)) }
        else do { e \<leftarrow> at (bufLineStarts b) (line (pstart p) + index + 1);
                  s \<leftarrow> at (bufLineStarts b) (line (pstart p));
                  Some (e - s - column (pstart p)) }
      })"

definition getIndexOf :: "StringBuffer list \<Rightarrow> Piece \<Rightarrow> int \<Rightarrow> (int \<times> int) option" where
  "getIndexOf bufs p accumulatedValue =
     do { pos \<leftarrow> positionInBuffer bufs p accumulatedValue;
          e \<leftarrow> offsetInBuffer bufs (bufferIndex p) (pend p);
          s \<leftarrow> offsetInBuffer bufs (bufferIndex p) (pstart p);
          if accumulatedValue = e - s
          then do { realLineCnt \<leftarrow> getLineFeedCnt bufs (bufferIndex p) (pstart p) pos;
                    if realLineCnt \<noteq> line pos - line (pstart p)
                    then Some (realLineCnt, 0)
                    else Some (line pos - line (pstart p), column pos) }
          else Some (line pos - line (pstart p), column pos) }"

text \<open>
  \<open>nodeCharCodeAt\<close> returns \<open>-1\<close> for a piece without line feed, and else the code at
  the offset (\<open>NaN\<close>, here the inner \<open>None\<close>, outside the buffer).
\<close>

definition nodeCharCodeAt :: "StringBuffer list \<Rightarrow> Piece \<Rightarrow> int \<Rightarrow> int option option" where
  "nodeCharCodeAt bufs p offset =
     (if lineFeedCnt p < 1 then Some (Some (- 1))
      else do { b \<leftarrow> bufAt bufs (bufferIndex p);
                s \<leftarrow> offsetInBuffer bufs (bufferIndex p) (pstart p);
                Some (map_option int (charCodeAt (buffer b) (s + offset))) })"

definition getPieceContent :: "StringBuffer list \<Rightarrow> Piece \<Rightarrow> jsstring option" where
  "getPieceContent bufs p =
     do { b \<leftarrow> bufAt bufs (bufferIndex p);
          startOffset \<leftarrow> offsetInBuffer bufs (bufferIndex p) (pstart p);
          endOffset \<leftarrow> offsetInBuffer bufs (bufferIndex p) (pend p);
          Some (substring (buffer b) startOffset endOffset) }"


section \<open>The tree of pieces\<close>

text \<open>
  Modelled from the spec: the module \<open>rbTreeBase\<close> (\<open>TreeNode\<close>, \<open>SENTINEL\<close>,
  \<open>leftest\<close>, \<open>righttest\<close>, \<open>next\<close>, \<open>prev\<close>, \<open>fixInsert\<close>, \<open>rbDelete\<close>,
  \<open>updateTreeMetadata\<close>) is not among the sources. The spec describes it: a node wraps
  one piece with a colour, links to its children and its parent, the total length
  \<open>size_left\<close> and the total line-feed count \<open>lf_left\<close> of its left subtree; a shared
  sentinel stands for the absent child.

  The tree is a value here. The links to the children are the structure of the datatype,
  and the parent link is the position in it. The piece table keeps references to nodes
  while it changes the tree around them, so every node carries an identity \<open>nid\<close>, given
  when the node is created and never changed; a reference to a node is its identity, and
  \<open>None\<close> refers to the sentinel.
\<close>

datatype NodeColor = Black | Red

record TreeNode =
  nid :: nat
  piece :: Piece
  color :: NodeColor
  size_left :: int
  lf_left :: int

datatype tree = SENTINEL | Node tree TreeNode tree

type_synonym nodeRef = "nat option"

fun inorder :: "tree \<Rightarrow> TreeNode list" where
  "inorder SENTINEL = []"
| "inorder (Node l n r) = inorder l @ n # inorder r"

definition nodeIds :: "tree \<Rightarrow> nat list" where
  "nodeIds t = map nid (inorder t)"

definition hasNode :: "nat \<Rightarrow> tree \<Rightarrow> bool" where
  "hasNode z t \<longleftrightarrow> z \<in> set (nodeIds t)"

definition findNode :: "tree \<Rightarrow> nat \<Rightarrow> TreeNode option" where
  "findNode t z = find (\<lambda>n. nid n = z) (inorder t)"

text \<open>\<open>node.piece = p\<close>, for the node with identity \<open>z\<close>.\<close>

fun setPiece :: "tree \<Rightarrow> nat \<Rightarrow> Piece \<Rightarrow> tree" where
  "setPiece SENTINEL z p = SENTINEL"
| "setPiece (Node l n r) z p =
     Node (setPiece l z p) (if nid n = z then n\<lparr>piece := p\<rparr> else n) (setPiece r z p)"

text \<open>Modelled from the spec: \<open>next\<close> and \<open>prev\<close>, the in-order successor and
  predecessor of a node, the sentinel when there is none (and for the sentinel).\<close>

fun succOf :: "nat list \<Rightarrow> nat \<Rightarrow> nat option" where
  "succOf (a # b # xs) z = (if a = z then Some b else succOf (b # xs) z)"
| "succOf xs z = None"

fun predOf :: "nat list \<Rightarrow> nat \<Rightarrow> nat option" where
  "predOf (a # b # xs) z = (if b = z then Some a else predOf (b # xs) z)"
| "predOf xs z = None"

definition nextNode :: "tree \<Rightarrow> nodeRef \<Rightarrow> nodeRef" where
  "nextNode t x = (case x of None \<Rightarrow> None | Some z \<Rightarrow> succOf (nodeIds t) z)"

definition prevNode :: "tree \<Rightarrow> nodeRef \<Rightarrow> nodeRef" where
  "prevNode t x = (case x of None \<Rightarrow> None | Some z \<Rightarrow> predOf (nodeIds t) z)"

text \<open>Modelled from the spec: the total length and line-feed count of a subtree, read
  off the right spine as \<open>computeBufferMetadata\<close> does.\<close>

fun calculateSize :: "tree \<Rightarrow> int" where
  "calculateSize SENTINEL = 0"
| "calculateSize (Node l n r) = size_left n + plength (piece n) + calculateSize r"

fun calculateLF :: "tree \<Rightarrow> int" where
  "calculateLF SENTINEL = 0"
| "calculateLF (Node l n r) = lf_left n + lineFeedCnt (piece n) + calculateLF r"

text \<open>
  Modelled from the spec: \<open>updateTreeMetadata(tree, node, delta, lfDelta)\<close> adds the
  deltas to \<open>size_left\<close> and \<open>lf_left\<close> of every ancestor that has the node in its left
  subtree. (The caller has stored the changed piece in the node before the call.)
\<close>

fun updateTreeMetadata :: "tree \<Rightarrow> nat \<Rightarrow> int \<Rightarrow> int \<Rightarrow> tree" where
  "updateTreeMetadata SENTINEL z delta lfDelta = SENTINEL"
| "updateTreeMetadata (Node l n r) z delta lfDelta =
     (if nid n = z then Node l n r
      else if hasNode z l then
        Node (updateTreeMetadata l z delta lfDelta)
             (n\<lparr>size_left := size_left n + delta, lf_left := lf_left n + lfDelta\<rparr>) r
      else Node l n (updateTreeMetadata r z delta lfDelta))"

subsection \<open>Rebalancing\<close>

text \<open>
  Modelled from the spec: \<open>fixInsert\<close> and \<open>rbDelete\<close> are the standard red-black
  insertion fix-up and the standard red-black deletion, which recolour and rotate until
  the root is black, no red node has a red child and every path from the root to a leaf
  has the same number of black nodes, and which keep \<open>size_left\<close> and \<open>lf_left\<close> of
  every node equal to the totals of its left subtree. They are written here by recursion
  along the path from the root to the node, with the steps of the two loops applied on
  the way back up. A node that gets a new left subtree gets its two aggregates from that
  subtree (\<open>mkNode\<close>).
\<close>

definition isRed :: "tree \<Rightarrow> bool" where
  "isRed t = (case t of SENTINEL \<Rightarrow> False | Node l n r \<Rightarrow> color n = Red)"

definition paint :: "NodeColor \<Rightarrow> tree \<Rightarrow> tree" where
  "paint c t = (case t of SENTINEL \<Rightarrow> SENTINEL | Node l n r \<Rightarrow> Node l (n\<lparr>color := c\<rparr>) r)"

definition mkNode :: "NodeColor \<Rightarrow> tree \<Rightarrow> TreeNode \<Rightarrow> tree \<Rightarrow> tree" where
  "mkNode c l n r =
     Node l (n\<lparr>color := c, size_left := calculateSize l, lf_left := calculateLF l\<rparr>) r"

text \<open>
  The insertion fix-up is a loop on a node \<open>x\<close>, at first the new red node, that runs
  while the parent of \<open>x\<close> is red. With a red uncle it paints the parent and the uncle
  black and the grandparent red, and goes on with the grandparent as \<open>x\<close>; with a black
  uncle it rotates \<open>x\<close> to the outside if it is an inner grandchild, paints the parent
  black and the grandparent red, rotates the grandparent, and ends.

  Where the loop stands after the steps inside a subtree: it has ended; or \<open>x\<close> is the
  root of the subtree; or \<open>x\<close> is the left or the right child of the root of the subtree,
  which is red.
\<close>

datatype fixState = FixDone | FixAtRoot | FixAtLeft | FixAtRight

text \<open>The step at a node whose left (right) subtree holds \<open>x\<close>.\<close>

definition fixInsert_left :: "fixState \<Rightarrow> tree \<Rightarrow> TreeNode \<Rightarrow> tree \<Rightarrow> tree \<times> fixState" where
  "fixInsert_left st l n r =
     (case st of
        FixDone \<Rightarrow> (mkNode (color n) l n r, FixDone)
      | FixAtRoot \<Rightarrow> (mkNode (color n) l n r, if color n = Red then FixAtLeft else FixDone)
      | FixAtLeft \<Rightarrow>
          if isRed r then (mkNode Red (paint Black l) n (paint Black r), FixAtRoot)
          else (case l of
                  SENTINEL \<Rightarrow> (mkNode (color n) l n r, FixDone)
                | Node a p b \<Rightarrow> (mkNode Black a p (mkNode Red b n r), FixDone))
      | FixAtRight \<Rightarrow>
          if isRed r then (mkNode Red (paint Black l) n (paint Black r), FixAtRoot)
          else (case l of
                  SENTINEL \<Rightarrow> (mkNode (color n) l n r, FixDone)
                | Node a p b \<Rightarrow>
                    (case b of
                       SENTINEL \<Rightarrow> (mkNode (color n) l n r, FixDone)
                     | Node b1 x b2 \<Rightarrow>
                         (mkNode Black (mkNode (color p) a p b1) x (mkNode Red b2 n r), FixDone))))"

definition fixInsert_right :: "fixState \<Rightarrow> tree \<Rightarrow> TreeNode \<Rightarrow> tree \<Rightarrow> tree \<times> fixState" where
  "fixInsert_right st l n r =
     (case st of
        FixDone \<Rightarrow> (mkNode (color n) l n r, FixDone)
      | FixAtRoot \<Rightarrow> (mkNode (color n) l n r, if color n = Red then FixAtRight else FixDone)
      | FixAtRight \<Rightarrow>
          if isRed l then (mkNode Red (paint Black l) n (paint Black r), FixAtRoot)
          else (case r of
                  SENTINEL \<Rightarrow> (mkNode (color n) l n r, FixDone)
                | Node a p b \<Rightarrow> (mkNode Black (mkNode Red l n a) p b, FixDone))
      | FixAtLeft \<Rightarrow>
          if isRed l then (mkNode Red (paint Black l) n (paint Black r), FixAtRoot)
          else (case r of
                  SENTINEL \<Rightarrow> (mkNode (color n) l n r, FixDone)
                | Node a p b \<Rightarrow>
                    (case a of
                       SENTINEL \<Rightarrow> (mkNode (color n) l n r, FixDone)
                     | Node a1 x a2 \<Rightarrow>
                         (mkNode Black (mkNode Red l n a1) x (mkNode (color p) a2 p b), FixDone))))"

fun fixInsert_path :: "nat \<Rightarrow> tree \<Rightarrow> tree \<times> fixState" where
  "fixInsert_path z SENTINEL = (SENTINEL, FixDone)"
| "fixInsert_path z (Node l n r) =
     (if nid n = z then (Node l n r, FixAtRoot)
      else if hasNode z l then
        (case fixInsert_path z l of (l', st) \<Rightarrow> fixInsert_left st l' n r)
      else if hasNode z r then
        (case fixInsert_path z r of (r', st) \<Rightarrow> fixInsert_right st l n r')
      else (Node l n r, FixDone))"

text \<open>The root is black when a node is attached, so the loop has ended at the root;
  at the end the root is painted black.\<close>

definition fixInsert :: "tree \<Rightarrow> nat \<Rightarrow> tree" where
  "fixInsert t z = paint Black (fst (fixInsert_path z t))"

text \<open>
  The deletion splices out the node \<open>z\<close> itself when it has at most one child, and else
  its in-order successor \<open>y\<close>, which takes the place and the colour of \<open>z\<close>; \<open>x\<close> is the
  child that moves up into the place of the spliced node. When the spliced node was
  black, the fix-up loop runs on \<open>x\<close> while \<open>x\<close> is black and not the root, and paints
  \<open>x\<close> black at its end. The functions return the subtree together with whether the loop
  goes on with the root of the subtree as \<open>x\<close>.
\<close>

definition fixDelete_test :: "tree \<Rightarrow> tree \<times> bool" where
  "fixDelete_test t = (if isRed t then (paint Black t, False) else (t, True))"

definition fixDelete_start :: "NodeColor \<Rightarrow> tree \<Rightarrow> tree \<times> bool" where
  "fixDelete_start c x = (if c = Red then (x, False) else fixDelete_test x)"

text \<open>The step of the loop for \<open>x\<close> the left child of \<open>p\<close> (given the colour \<open>c\<close>), with
  the sibling \<open>w\<close>, after the case of a red sibling: both children of \<open>w\<close> black; the
  right child of \<open>w\<close> black; the right child of \<open>w\<close> red.\<close>

definition fixDelete_left_black ::
  "tree \<Rightarrow> TreeNode \<Rightarrow> NodeColor \<Rightarrow> tree \<Rightarrow> tree \<times> bool" where
  "fixDelete_left_black x p c w =
     (case w of
        SENTINEL \<Rightarrow> fixDelete_test (mkNode c x p SENTINEL)
      | Node wl wn wr \<Rightarrow>
          if \<not> isRed wl \<and> \<not> isRed wr then fixDelete_test (mkNode c x p (paint Red w))
          else if \<not> isRed wr then
            (case wl of
               SENTINEL \<Rightarrow> fixDelete_test (mkNode c x p (paint Red w))
             | Node wll wln wlr \<Rightarrow>
                 (mkNode c (mkNode Black x p wll) wln (mkNode Black wlr wn wr), False))
          else (mkNode c (mkNode Black x p wl) wn (paint Black wr), False))"

definition fixDelete_left :: "tree \<Rightarrow> TreeNode \<Rightarrow> tree \<Rightarrow> tree \<times> bool" where
  "fixDelete_left x p w =
     (if isRed w then
        (case w of
           SENTINEL \<Rightarrow> fixDelete_left_black x p (color p) w
         | Node wl wn wr \<Rightarrow>
             (case fixDelete_left_black x p Red wl of
                (t, again) \<Rightarrow> (mkNode Black t wn wr, again)))
      else fixDelete_left_black x p (color p) w)"

definition fixDelete_right_black ::
  "tree \<Rightarrow> TreeNode \<Rightarrow> NodeColor \<Rightarrow> tree \<Rightarrow> tree \<times> bool" where
  "fixDelete_right_black w p c x =
     (case w of
        SENTINEL \<Rightarrow> fixDelete_test (mkNode c SENTINEL p x)
      | Node wl wn wr \<Rightarrow>
          if \<not> isRed wl \<and> \<not> isRed wr then fixDelete_test (mkNode c (paint Red w) p x)
          else if \<not> isRed wl then
            (case wr of
               SENTINEL \<Rightarrow> fixDelete_test (mkNode c (paint Red w) p x)
             | Node wrl wrn wrr \<Rightarrow>
                 (mkNode c (mkNode Black wl wn wrl) wrn (mkNode Black wrr p x), False))
          else (mkNode c (paint Black wl) wn (mkNode Black wr p x), False))"

definition fixDelete_right :: "tree \<Rightarrow> TreeNode \<Rightarrow> tree \<Rightarrow> tree \<times> bool" where
  "fixDelete_right w p x =
     (if isRed w then
        (case w of
           SENTINEL \<Rightarrow> fixDelete_right_black w p (color p) x
         | Node wl wn wr \<Rightarrow>
             (case fixDelete_right_black wr p Red x of
                (t, again) \<Rightarrow> (mkNode Black wl wn t, again)))
      else fixDelete_right_black w p (color p) x)"

text \<open>The in-order first node of a subtree, spliced out of it.\<close>

fun spliceLeftest :: "tree \<Rightarrow> (TreeNode \<times> tree \<times> bool) option" where
  "spliceLeftest SENTINEL = None"
| "spliceLeftest (Node l n r) =
     (case spliceLeftest l of
        None \<Rightarrow> Some (n, fixDelete_start (color n) r)
      | Some (y, l', again) \<Rightarrow>
          Some (y, if again then fixDelete_left l' n r else (mkNode (color n) l' n r, False)))"

fun rbDelete_path :: "nat \<Rightarrow> tree \<Rightarrow> tree \<times> bool" where
  "rbDelete_path z SENTINEL = (SENTINEL, False)"
| "rbDelete_path z (Node l n r) =
     (if nid n = z then
        (if l = SENTINEL then fixDelete_start (color n) r
         else if r = SENTINEL then fixDelete_start (color n) l
         else (case spliceLeftest r of
                 None \<Rightarrow> fixDelete_start (color n) l
               | Some (y, r', again) \<Rightarrow>
                   if again then fixDelete_right l (y\<lparr>color := color n\<rparr>) r'
                   else (mkNode (color n) l y r', False)))
      else if hasNode z l then
        (case rbDelete_path z l of
           (l', again) \<Rightarrow> if again then fixDelete_left l' n r else (mkNode (color n) l' n r, False))
      else if hasNode z r then
        (case rbDelete_path z r of
           (r', again) \<Rightarrow> if again then fixDelete_right l n r' else (mkNode (color n) l n r', False))
      else (Node l n r, False))"

definition rbDelete :: "tree \<Rightarrow> nat \<Rightarrow> tree" where
  "rbDelete t z = paint Black (fst (rbDelete_path z t))"


section \<open>The piece table\<close>

subsection \<open>The search cache\<close>

record CacheEntry =
  ce_node :: nat
  ce_nodeStartOffset :: int
  ce_nodeStartLineNumber :: "int option"

record NodePosition =
  node :: nat
  remainder :: int
  nodeStartOffset :: int

record PieceTreeSearchCache =
  limit :: nat
  cache :: "CacheEntry list"

text \<open>\<open>get\<close> scans from the most recent entry backwards. It reads the piece of the
  cached node, which the model finds in the tree by its identity.\<close>

fun searchCache_get_loop :: "tree \<Rightarrow> CacheEntry list \<Rightarrow> int \<Rightarrow> CacheEntry option option" where
  "searchCache_get_loop t [] offset = Some None"
| "searchCache_get_loop t (e # es) offset =
     (case findNode t (ce_node e) of
        None \<Rightarrow> None
      | Some n \<Rightarrow>
          if ce_nodeStartOffset e \<le> offset \<and> offset \<le> ce_nodeStartOffset e + plength (piece n)
          then Some (Some e)
          else searchCache_get_loop t es offset)"

definition searchCache_get :: "tree \<Rightarrow> PieceTreeSearchCache \<Rightarrow> int \<Rightarrow> CacheEntry option option" where
  "searchCache_get t c offset = searchCache_get_loop t (rev (cache c)) offset"

definition searchCache_set :: "PieceTreeSearchCache \<Rightarrow> CacheEntry \<Rightarrow> PieceTreeSearchCache" where
  "searchCache_set c e =
     c\<lparr>cache := (if length (cache c) \<ge> limit c then tl (cache c) else cache c) @ [e]\<rparr>"

text \<open>\<open>validate\<close> drops the entries of detached nodes (nodes that are no longer in
  the tree) and the entries that start at or after the offset.\<close>

definition searchCache_validate :: "tree \<Rightarrow> PieceTreeSearchCache \<Rightarrow> int \<Rightarrow> PieceTreeSearchCache" where
  "searchCache_validate t c offset =
     c\<lparr>cache := filter (\<lambda>e. \<not> (\<not> hasNode (ce_node e) t \<or> ce_nodeStartOffset e \<ge> offset)) (cache c)\<rparr>"

subsection \<open>The state of a piece tree\<close>

text \<open>The fields of \<open>PieceTreeBase\<close>, without their leading underscores (\<open>docLength\<close> is
  \<open>_length\<close>), and the next free node identity.\<close>

record PieceTreeBase =
  root :: tree
  buffers :: "StringBuffer list"
  lineCnt :: int
  docLength :: int
  EOL :: jsstring
  EOLLength :: int
  EOLNormalized :: bool
  lastChangeBufferPos :: BufferCursor
  searchCache :: PieceTreeSearchCache
  lastVisitedLine :: "int \<times> jsstring"
  nextId :: nat

subsection \<open>Inserting and deleting nodes\<close>

definition leaf :: "TreeNode \<Rightarrow> tree" where
  "leaf z = Node SENTINEL z SENTINEL"

text \<open>\<open>leftest(t).left = z\<close> and \<open>righttest(t).right = z\<close>.\<close>

fun attachLeftest :: "tree \<Rightarrow> TreeNode \<Rightarrow> tree" where
  "attachLeftest SENTINEL z = leaf z"
| "attachLeftest (Node l n r) z = Node (attachLeftest l z) n r"

fun attachRighttest :: "tree \<Rightarrow> TreeNode \<Rightarrow> tree" where
  "attachRighttest SENTINEL z = leaf z"
| "attachRighttest (Node l n r) z = Node l n (attachRighttest r z)"

fun attachRight :: "tree \<Rightarrow> nat \<Rightarrow> TreeNode \<Rightarrow> tree" where
  "attachRight SENTINEL x z = SENTINEL"
| "attachRight (Node l n r) x z =
     (if nid n = x then Node l n (attachLeftest r z)
      else Node (attachRight l x z) n (attachRight r x z))"

fun attachLeft :: "tree \<Rightarrow> nat \<Rightarrow> TreeNode \<Rightarrow> tree" where
  "attachLeft SENTINEL x z = SENTINEL"
| "attachLeft (Node l n r) x z =
     (if nid n = x then Node (attachRighttest l z) n r
      else Node (attachLeft l x z) n (attachLeft r x z))"

definition newTreeNode :: "nat \<Rightarrow> Piece \<Rightarrow> NodeColor \<Rightarrow> TreeNode" where
  "newTreeNode i p c = \<lparr> nid = i, piece = p, color = c, size_left = 0, lf_left = 0 \<rparr>"

definition rbInsertRight :: "PieceTreeBase \<Rightarrow> nodeRef \<Rightarrow> Piece \<Rightarrow> (nat \<times> PieceTreeBase) option" where
  "rbInsertRight s nd p =
     (if root s = SENTINEL then
        Some (nextId s,
              s\<lparr>root := fixInsert (leaf (newTreeNode (nextId s) p Black)) (nextId s),
                nextId := nextId s + 1\<rparr>)
      else (case nd of
              None \<Rightarrow> None
            | Some x \<Rightarrow>
                if hasNode x (root s) then
                  Some (nextId s,
                        s\<lparr>root := fixInsert (attachRight (root s) x (newTreeNode (nextId s) p Red))
                                   (nextId s),
                          nextId := nextId s + 1\<rparr>)
                else None))"

definition rbInsertLeft :: "PieceTreeBase \<Rightarrow> nodeRef \<Rightarrow> Piece \<Rightarrow> (nat \<times> PieceTreeBase) option" where
  "rbInsertLeft s nd p =
     (if root s = SENTINEL then
        Some (nextId s,
              s\<lparr>root := fixInsert (leaf (newTreeNode (nextId s) p Black)) (nextId s),
                nextId := nextId s + 1\<rparr>)
      else (case nd of
              None \<Rightarrow> None
            | Some x \<Rightarrow>
                if hasNode x (root s) then
                  Some (nextId s,
                        s\<lparr>root := fixInsert (attachLeft (root s) x (newTreeNode (nextId s) p Red))
                                   (nextId s),
                          nextId := nextId s + 1\<rparr>)
                else None))"

text \<open>\<open>rbDelete(this, node)\<close>; the node is detached from the tree.\<close>

definition rbDeleteNode :: "PieceTreeBase \<Rightarrow> nat \<Rightarrow> PieceTreeBase option" where
  "rbDeleteNode s z =
     (if hasNode z (root s) then Some (s\<lparr>root := rbDelete (root s) z\<rparr>) else None)"

fun deleteNodes :: "PieceTreeBase \<Rightarrow> nat list \<Rightarrow> PieceTreeBase option" where
  "deleteNodes s [] = Some s"
| "deleteNodes s (z # zs) = do { s' \<leftarrow> rbDeleteNode s z; deleteNodes s' zs }"

text \<open>\<open>node.piece = p; updateTreeMetadata(this, node, delta, lfDelta)\<close>.\<close>

definition replacePiece :: "PieceTreeBase \<Rightarrow> nat \<Rightarrow> Piece \<Rightarrow> int \<Rightarrow> int \<Rightarrow> PieceTreeBase" where
  "replacePiece s z p delta lfDelta =
     s\<lparr>root := updateTreeMetadata (setPiece (root s) z p) z delta lfDelta\<rparr>"

definition pieceOf :: "PieceTreeBase \<Rightarrow> nat \<Rightarrow> Piece option" where
  "pieceOf s z = map_option piece (findNode (root s) z)"

subsection \<open>Metadata and translation between offsets and positions\<close>

definition computeBufferMetadata :: "PieceTreeBase \<Rightarrow> PieceTreeBase" where
  "computeBufferMetadata s =
     s\<lparr>lineCnt := 1 + calculateLF (root s),
       docLength := calculateSize (root s),
       searchCache := searchCache_validate (root s) (searchCache s) (calculateSize (root s))\<rparr>"

definition getLength :: "PieceTreeBase \<Rightarrow> int" where
  "getLength s = docLength s"

definition getLineCount :: "PieceTreeBase \<Rightarrow> int" where
  "getLineCount s = lineCnt s"

fun getOffsetAt_loop :: "StringBuffer list \<Rightarrow> tree \<Rightarrow> int \<Rightarrow> int \<Rightarrow> int \<Rightarrow> int option" where
  "getOffsetAt_loop bufs SENTINEL lineNumber col leftLen = Some leftLen"
| "getOffsetAt_loop bufs (Node l n r) lineNumber col leftLen =
     (if l \<noteq> SENTINEL \<and> lineNumber \<le> lf_left n + 1
        then getOffsetAt_loop bufs l lineNumber col leftLen
      else if lineNumber \<le> lf_left n + lineFeedCnt (piece n) + 1
        then do { acc \<leftarrow> getAccumulatedValue bufs (piece n) (lineNumber - lf_left n - 2);
                  Some (leftLen + size_left n + acc + col - 1) }
      else getOffsetAt_loop bufs r (lineNumber - (lf_left n + lineFeedCnt (piece n))) col
             (leftLen + size_left n + plength (piece n)))"

definition getOffsetAt :: "PieceTreeBase \<Rightarrow> int \<Rightarrow> int \<Rightarrow> int option" where
  "getOffsetAt s lineNumber col = getOffsetAt_loop (buffers s) (root s) lineNumber col 0"

record Position =
  lineNumber :: int
  posColumn :: int

definition newPosition :: "int \<Rightarrow> int \<Rightarrow> Position" where
  "newPosition l c = \<lparr> lineNumber = l, posColumn = c \<rparr>"

fun getPositionAt_loop ::
  "PieceTreeBase \<Rightarrow> int \<Rightarrow> tree \<Rightarrow> int \<Rightarrow> int \<Rightarrow> Position option" where
  "getPositionAt_loop s originalOffset SENTINEL offset lfCnt = Some (newPosition 1 1)"
| "getPositionAt_loop s originalOffset (Node l n r) offset lfCnt =
     (if size_left n \<noteq> 0 \<and> offset \<le> size_left n
        then getPositionAt_loop s originalOffset l offset lfCnt
      else if offset \<le> size_left n + plength (piece n)
        then do {
          (index, rem) \<leftarrow> getIndexOf (buffers s) (piece n) (offset - size_left n);
          if index = 0
          then do { lineStartOffset \<leftarrow> getOffsetAt s (lfCnt + lf_left n + index + 1) 1;
                    Some (newPosition (lfCnt + lf_left n + index + 1)
                            (originalOffset - lineStartOffset + 1)) }
          else Some (newPosition (lfCnt + lf_left n + index + 1) (rem + 1)) }
      else if r = SENTINEL
        then do { lineStartOffset \<leftarrow>
                    getOffsetAt s (lfCnt + lf_left n + lineFeedCnt (piece n) + 1) 1;
                  Some (newPosition (lfCnt + lf_left n + lineFeedCnt (piece n) + 1)
                          (originalOffset - (offset - (size_left n + plength (piece n)))
                             - lineStartOffset + 1)) }
      else getPositionAt_loop s originalOffset r (offset - (size_left n + plength (piece n)))
             (lfCnt + lf_left n + lineFeedCnt (piece n)))"

text \<open>Offsets are integers here, so \<open>Math.floor\<close> leaves them as they are.\<close>

definition getPositionAt :: "PieceTreeBase \<Rightarrow> int \<Rightarrow> Position option" where
  "getPositionAt s offset = getPositionAt_loop s (max 0 offset) (root s) (max 0 offset) 0"

fun nodeAt_loop :: "tree \<Rightarrow> int \<Rightarrow> int \<Rightarrow> NodePosition option" where
  "nodeAt_loop SENTINEL offset nso = None"
| "nodeAt_loop (Node l n r) offset nso =
     (if size_left n > offset then nodeAt_loop l offset nso
      else if size_left n + plength (piece n) \<ge> offset
        then Some \<lparr> node = nid n, remainder = offset - size_left n,
                    nodeStartOffset = nso + size_left n \<rparr>
      else nodeAt_loop r (offset - (size_left n + plength (piece n)))
             (nso + size_left n + plength (piece n)))"

text \<open>\<open>nodeAt\<close> returns \<open>null\<close> (the inner \<open>None\<close>) for an offset after the document.\<close>

definition nodeAt :: "PieceTreeBase \<Rightarrow> int \<Rightarrow> (NodePosition option \<times> PieceTreeBase) option" where
  "nodeAt s offset =
     do { c \<leftarrow> searchCache_get (root s) (searchCache s) offset;
          (case c of
             Some e \<Rightarrow>
               Some (Some \<lparr> node = ce_node e, remainder = offset - ce_nodeStartOffset e,
                            nodeStartOffset = ce_nodeStartOffset e \<rparr>, s)
           | None \<Rightarrow>
               (case nodeAt_loop (root s) offset 0 of
                  None \<Rightarrow> Some (None, s)
                | Some np \<Rightarrow>
                    Some (Some np,
                          s\<lparr>searchCache := searchCache_set (searchCache s)
                               \<lparr> ce_node = node np, ce_nodeStartOffset = nodeStartOffset np,
                                 ce_nodeStartLineNumber = None \<rparr>\<rparr>))) }"


subsection \<open>Line terminators at the boundary of pieces\<close>

definition AverageBufferSize :: int where
  "AverageBufferSize = 65535"

definition shouldCheckCRLF :: "PieceTreeBase \<Rightarrow> bool" where
  "shouldCheckCRLF s \<longleftrightarrow> \<not> (EOLNormalized s \<and> EOL s = [10])"

text \<open>\<open>startWithLF\<close> and \<open>endWithCR\<close> take a string or a node.\<close>

definition startWithLF_str :: "jsstring \<Rightarrow> bool" where
  "startWithLF_str val \<longleftrightarrow> charCodeAt val 0 = Some 10"

definition endWithCR_str :: "jsstring \<Rightarrow> bool" where
  "endWithCR_str val \<longleftrightarrow> charCodeAt val (int (length val) - 1) = Some 13"

definition startWithLF_node :: "PieceTreeBase \<Rightarrow> nodeRef \<Rightarrow> bool option" where
  "startWithLF_node s x =
     (case x of
        None \<Rightarrow> Some False
      | Some z \<Rightarrow> do {
          p \<leftarrow> pieceOf s z;
          if lineFeedCnt p = 0 then Some False
          else do {
            b \<leftarrow> bufAt (buffers s) (bufferIndex p);
            l \<leftarrow> at (bufLineStarts b) (line (pstart p));
            if line (pstart p) = int (length (bufLineStarts b)) - 1 then Some False
            else do {
              nextLineOffset \<leftarrow> at (bufLineStarts b) (line (pstart p) + 1);
              if nextLineOffset > (l + column (pstart p)) + 1 then Some False
              else Some (charCodeAt (buffer b) (l + column (pstart p)) = Some 10)
            }
          }
        })"

definition endWithCR_node :: "PieceTreeBase \<Rightarrow> nodeRef \<Rightarrow> bool option" where
  "endWithCR_node s x =
     (case x of
        None \<Rightarrow> Some False
      | Some z \<Rightarrow> do {
          p \<leftarrow> pieceOf s z;
          if lineFeedCnt p = 0 then Some False
          else do { c \<leftarrow> nodeCharCodeAt (buffers s) p (plength p - 1);
                    Some (c = Some 13) }
        })"

subsection \<open>New pieces\<close>

text \<open>A piece that covers a whole new buffer, and the buffer.\<close>

definition wholeBufferPiece :: "nat \<Rightarrow> jsstring \<Rightarrow> (Piece \<times> StringBuffer) option" where
  "wholeBufferPiece bi txt =
     (let ls = createLineStartsFast txt True in
      do { l \<leftarrow> at ls (int (length ls) - 1);
           Some (newPiece bi \<lparr> line = 0, column = 0 \<rparr>
                   \<lparr> line = int (length ls) - 1, column = int (length txt) - l \<rparr>
                   (int (length ls) - 1) (int (length txt)),
                 \<lparr> buffer = txt, bufLineStarts = ls \<rparr>) })"

function createNewPieces_split ::
  "StringBuffer list \<Rightarrow> jsstring \<Rightarrow> Piece list \<Rightarrow> (Piece list \<times> StringBuffer list) option" where
  "createNewPieces_split bufs txt newPieces =
     (if int (length txt) > AverageBufferSize then
        (let lastChar = charCodeAt txt (AverageBufferSize - 1);
             keepBack = (lastChar = Some CarriageReturn \<or>
                         (case lastChar of None \<Rightarrow> False | Some c \<Rightarrow> c \<ge> 55296 \<and> c \<le> 56319));
             cut = (if keepBack then AverageBufferSize - 1 else AverageBufferSize)
         in (case wholeBufferPiece (length bufs) (substring txt 0 cut) of
               None \<Rightarrow> None
             | Some (p, b) \<Rightarrow>
                 createNewPieces_split (bufs @ [b]) (drop (nat cut) txt) (newPieces @ [p])))
      else (case wholeBufferPiece (length bufs) txt of
              None \<Rightarrow> None
            | Some (p, b) \<Rightarrow> Some (newPieces @ [p], bufs @ [b])))"
  by pat_completeness auto
termination
  by (relation "measure (\<lambda>(bufs, txt, ps). length txt)")
     (auto simp add: AverageBufferSize_def split: if_splits)

declare createNewPieces_split.simps [simp del]

definition createNewPieces :: "PieceTreeBase \<Rightarrow> jsstring \<Rightarrow> (Piece list \<times> PieceTreeBase) option" where
  "createNewPieces s txt =
     (if int (length txt) > AverageBufferSize then
        do { (ps, bufs) \<leftarrow> createNewPieces_split (buffers s) txt [];
             Some (ps, s\<lparr>buffers := bufs\<rparr>) }
      else do {
        b0 \<leftarrow> bufAt (buffers s) 0;
        lastStart \<leftarrow> at (bufLineStarts b0) (int (length (bufLineStarts b0)) - 1);
        let startOffset = int (length (buffer b0));
        let ls = createLineStartsFast txt False;
        let pad = (lastStart = startOffset \<and> startOffset \<noteq> 0 \<and> startWithLF_str txt
                   \<and> endWithCR_str (buffer b0));
        let start = (if pad
                     then \<lparr> line = line (lastChangeBufferPos s),
                            column = column (lastChangeBufferPos s) + 1 \<rparr>
                     else lastChangeBufferPos s);
        let b0' = (if pad
                   then \<lparr> buffer = buffer b0 @ [95] @ txt,
                          bufLineStarts = bufLineStarts b0 @ tl (map (\<lambda>x. x + (startOffset + 1)) ls) \<rparr>
                   else \<lparr> buffer = buffer b0 @ txt,
                          bufLineStarts = bufLineStarts b0 @
                            tl (if startOffset \<noteq> 0 then map (\<lambda>x. x + startOffset) ls else ls) \<rparr>);
        let startOffset' = (if pad then startOffset + 1 else startOffset);
        let bufs' = (buffers s)[0 := b0'];
        let endOffset = int (length (buffer b0'));
        let endIndex = int (length (bufLineStarts b0')) - 1;
        lastStart' \<leftarrow> at (bufLineStarts b0') endIndex;
        let endPos = \<lparr> line = endIndex, column = endOffset - lastStart' \<rparr>;
        lfc \<leftarrow> getLineFeedCnt bufs' 0 start endPos;
        Some ([newPiece 0 start endPos lfc (endOffset - startOffset')],
              s\<lparr>buffers := bufs', lastChangeBufferPos := endPos\<rparr>)
      })"

subsection \<open>Changing the piece of a node\<close>

definition deleteNodeTail :: "PieceTreeBase \<Rightarrow> nat \<Rightarrow> BufferCursor \<Rightarrow> PieceTreeBase option" where
  "deleteNodeTail s z pos =
     do { p \<leftarrow> pieceOf s z;
          originalEndOffset \<leftarrow> offsetInBuffer (buffers s) (bufferIndex p) (pend p);
          newEndOffset \<leftarrow> offsetInBuffer (buffers s) (bufferIndex p) pos;
          newLineFeedCnt \<leftarrow> getLineFeedCnt (buffers s) (bufferIndex p) (pstart p) pos;
          Some (replacePiece s z
                  (newPiece (bufferIndex p) (pstart p) pos newLineFeedCnt
                     (plength p + (newEndOffset - originalEndOffset)))
                  (newEndOffset - originalEndOffset) (newLineFeedCnt - lineFeedCnt p)) }"

definition deleteNodeHead :: "PieceTreeBase \<Rightarrow> nat \<Rightarrow> BufferCursor \<Rightarrow> PieceTreeBase option" where
  "deleteNodeHead s z pos =
     do { p \<leftarrow> pieceOf s z;
          originalStartOffset \<leftarrow> offsetInBuffer (buffers s) (bufferIndex p) (pstart p);
          newLineFeedCnt \<leftarrow> getLineFeedCnt (buffers s) (bufferIndex p) pos (pend p);
          newStartOffset \<leftarrow> offsetInBuffer (buffers s) (bufferIndex p) pos;
          Some (replacePiece s z
                  (newPiece (bufferIndex p) pos (pend p) newLineFeedCnt
                     (plength p + (originalStartOffset - newStartOffset)))
                  (originalStartOffset - newStartOffset) (newLineFeedCnt - lineFeedCnt p)) }"

text \<open>The piece of \<open>z\<close> without its first character, a line feed: it starts at the
  next line of its buffer.\<close>

definition dropLeadingLF :: "PieceTreeBase \<Rightarrow> Piece \<Rightarrow> Piece option" where
  "dropLeadingLF s p =
     do { lfc \<leftarrow> getLineFeedCnt (buffers s) (bufferIndex p)
                   \<lparr> line = line (pstart p) + 1, column = 0 \<rparr> (pend p);
          Some (newPiece (bufferIndex p) \<lparr> line = line (pstart p) + 1, column = 0 \<rparr> (pend p)
                  lfc (plength p - 1)) }"

definition fixCRLF :: "PieceTreeBase \<Rightarrow> nat \<Rightarrow> nat \<Rightarrow> PieceTreeBase option" where
  "fixCRLF s prev nxt =
     do { pp \<leftarrow> pieceOf s prev;
          b \<leftarrow> bufAt (buffers s) (bufferIndex pp);
          newEnd \<leftarrow>
            (if column (pend pp) = 0
             then do { a \<leftarrow> at (bufLineStarts b) (line (pend pp));
                       c \<leftarrow> at (bufLineStarts b) (line (pend pp) - 1);
                       Some \<lparr> line = line (pend pp) - 1, column = a - c - 1 \<rparr> }
             else Some \<lparr> line = line (pend pp), column = column (pend pp) - 1 \<rparr>);
          let s1 = replacePiece s prev
                     (newPiece (bufferIndex pp) (pstart pp) newEnd (lineFeedCnt pp - 1)
                        (plength pp - 1)) (- 1) (- 1);
          let del1 = (if plength pp - 1 = 0 then [prev] else []);
          np \<leftarrow> pieceOf s1 nxt;
          np' \<leftarrow> dropLeadingLF s1 np;
          let s2 = replacePiece s1 nxt np' (- 1) (- 1);
          let del2 = (if plength np' = 0 then [nxt] else []);
          (pieces, s3) \<leftarrow> createNewPieces s2 [13, 10];
          p0 \<leftarrow> at pieces 0;
          (z, s4) \<leftarrow> rbInsertRight s3 (Some prev) p0;
          deleteNodes s4 (del1 @ del2) }"

definition validateCRLFWithPrevNode :: "PieceTreeBase \<Rightarrow> nodeRef \<Rightarrow> PieceTreeBase option" where
  "validateCRLFWithPrevNode s nextNd =
     (if shouldCheckCRLF s then
        do { lf \<leftarrow> startWithLF_node s nextNd;
             if lf then
               do { cr \<leftarrow> endWithCR_node s (prevNode (root s) nextNd);
                    if cr then
                      (case (prevNode (root s) nextNd, nextNd) of
                         (Some a, Some b) \<Rightarrow> fixCRLF s a b
                       | _ \<Rightarrow> None)
                    else Some s }
             else Some s }
      else Some s)"

definition validateCRLFWithNextNode :: "PieceTreeBase \<Rightarrow> nodeRef \<Rightarrow> PieceTreeBase option" where
  "validateCRLFWithNextNode s nd =
     (if shouldCheckCRLF s then
        do { cr \<leftarrow> endWithCR_node s nd;
             if cr then
               do { lf \<leftarrow> startWithLF_node s (nextNode (root s) nd);
                    if lf then
                      (case (nd, nextNode (root s) nd) of
                         (Some a, Some b) \<Rightarrow> fixCRLF s a b
                       | _ \<Rightarrow> None)
                    else Some s }
             else Some s }
      else Some s)"

definition adjustCarriageReturnFromNext ::
  "PieceTreeBase \<Rightarrow> jsstring \<Rightarrow> nat \<Rightarrow> (bool \<times> PieceTreeBase) option" where
  "adjustCarriageReturnFromNext s val z =
     (if shouldCheckCRLF s \<and> endWithCR_str val then
        do { lf \<leftarrow> startWithLF_node s (nextNode (root s) (Some z));
             if lf then
               (case nextNode (root s) (Some z) of
                  None \<Rightarrow> None
                | Some nx \<Rightarrow>
                    do { p \<leftarrow> pieceOf s nx;
                         if plength p = 1 then
                           do { s' \<leftarrow> rbDeleteNode s nx; Some (True, s') }
                         else
                           do { p' \<leftarrow> dropLeadingLF s p;
                                Some (True, replacePiece s nx p' (- 1) (- 1)) } })
             else Some (False, s) }
      else Some (False, s))"


subsection \<open>Insertion\<close>

text \<open>\<open>insert\<close> and \<open>delete\<close> of \<open>PieceTreeBase\<close> are \<open>insertPT\<close> and \<open>deletePT\<close>.\<close>

definition appendToNode :: "PieceTreeBase \<Rightarrow> nat \<Rightarrow> jsstring \<Rightarrow> PieceTreeBase option" where
  "appendToNode s z val0 =
     do { (adj, s1) \<leftarrow> adjustCarriageReturnFromNext s val0 z;
          let val = (if adj then val0 @ [10] else val0);
          hitCRLF \<leftarrow> (if shouldCheckCRLF s1 \<and> startWithLF_str val
                       then endWithCR_node s1 (Some z) else Some False);
          b0 \<leftarrow> bufAt (buffers s1) 0;
          let startOffset = int (length (buffer b0));
          let ls = map (\<lambda>x. x + startOffset) (createLineStartsFast val False);
          ls0 \<leftarrow> (if hitCRLF
                   then do { prevStartOffset \<leftarrow>
                               at (bufLineStarts b0) (int (length (bufLineStarts b0)) - 2);
                             Some (butlast (bufLineStarts b0)) }
                   else Some (bufLineStarts b0));
          let b0' = \<lparr> buffer = buffer b0 @ val, bufLineStarts = ls0 @ tl ls \<rparr>;
          let bufs' = (buffers s1)[0 := b0'];
          let endIndex = int (length (bufLineStarts b0')) - 1;
          l \<leftarrow> at (bufLineStarts b0') endIndex;
          let newEnd = \<lparr> line = endIndex, column = int (length (buffer b0')) - l \<rparr>;
          p \<leftarrow> pieceOf s1 z;
          newLineFeedCnt \<leftarrow> getLineFeedCnt bufs' 0 (pstart p) newEnd;
          Some (replacePiece (s1\<lparr>buffers := bufs', lastChangeBufferPos := newEnd\<rparr>) z
                  (newPiece (bufferIndex p) (pstart p) newEnd newLineFeedCnt
                     (plength p + int (length val)))
                  (int (length val)) (newLineFeedCnt - lineFeedCnt p)) }"

fun insertPiecesRight :: "PieceTreeBase \<Rightarrow> nat \<Rightarrow> Piece list \<Rightarrow> (nat \<times> PieceTreeBase) option" where
  "insertPiecesRight s tmpNode [] = Some (tmpNode, s)"
| "insertPiecesRight s tmpNode (p # ps) =
     do { (n, s') \<leftarrow> rbInsertRight s (Some tmpNode) p; insertPiecesRight s' n ps }"

fun insertPiecesLeft :: "PieceTreeBase \<Rightarrow> nat \<Rightarrow> Piece list \<Rightarrow> (nat \<times> PieceTreeBase) option" where
  "insertPiecesLeft s newNode [] = Some (newNode, s)"
| "insertPiecesLeft s newNode (p # ps) =
     do { (n, s') \<leftarrow> rbInsertLeft s (Some newNode) p; insertPiecesLeft s' n ps }"

definition insertContentToNodeLeft :: "PieceTreeBase \<Rightarrow> jsstring \<Rightarrow> nat \<Rightarrow> PieceTreeBase option" where
  "insertContentToNodeLeft s val0 z =
     do { moveLF \<leftarrow> (if shouldCheckCRLF s \<and> endWithCR_str val0
                      then startWithLF_node s (Some z) else Some False);
          (val, s1, nodesToDel) \<leftarrow>
            (if moveLF
             then do { p \<leftarrow> pieceOf s z;
                       p' \<leftarrow> dropLeadingLF s p;
                       Some (val0 @ [10], replacePiece s z p' (- 1) (- 1),
                             if plength p' = 0 then [z] else []) }
             else Some (val0, s, []));
          (newPieces, s2) \<leftarrow> createNewPieces s1 val;
          lastPiece \<leftarrow> at newPieces (int (length newPieces) - 1);
          (newNode0, s3) \<leftarrow> rbInsertLeft s2 (Some z) lastPiece;
          (newNode, s4) \<leftarrow> insertPiecesLeft s3 newNode0 (rev (butlast newPieces));
          s5 \<leftarrow> validateCRLFWithPrevNode s4 (Some newNode);
          deleteNodes s5 nodesToDel }"

definition insertContentToNodeRight :: "PieceTreeBase \<Rightarrow> jsstring \<Rightarrow> nat \<Rightarrow> PieceTreeBase option" where
  "insertContentToNodeRight s val0 z =
     do { (adj, s1) \<leftarrow> adjustCarriageReturnFromNext s val0 z;
          let val = (if adj then val0 @ [10] else val0);
          (newPieces, s2) \<leftarrow> createNewPieces s1 val;
          firstPiece \<leftarrow> at newPieces 0;
          (newNode, s3) \<leftarrow> rbInsertRight s2 (Some z) firstPiece;
          (tmpNode, s4) \<leftarrow> insertPiecesRight s3 newNode (tl newPieces);
          validateCRLFWithPrevNode s4 (Some newNode) }"

definition validateCache :: "PieceTreeBase \<Rightarrow> int \<Rightarrow> PieceTreeBase" where
  "validateCache s offset =
     s\<lparr>searchCache := searchCache_validate (root s) (searchCache s) offset\<rparr>"

text \<open>The branch of \<open>insert\<close> for an offset strictly inside the piece of the node.\<close>

definition insertIntoNode ::
  "PieceTreeBase \<Rightarrow> jsstring \<Rightarrow> nat \<Rightarrow> int \<Rightarrow> BufferCursor \<Rightarrow> PieceTreeBase option" where
  "insertIntoNode s val0 z rem insertPosInBuffer =
     do { p \<leftarrow> pieceOf s z;
          lfc \<leftarrow> getLineFeedCnt (buffers s) (bufferIndex p) insertPosInBuffer (pend p);
          e \<leftarrow> offsetInBuffer (buffers s) (bufferIndex p) (pend p);
          i \<leftarrow> offsetInBuffer (buffers s) (bufferIndex p) insertPosInBuffer;
          let newRightPiece0 = newPiece (bufferIndex p) insertPosInBuffer (pend p) lfc (e - i);
          (newRightPiece, val1) \<leftarrow>
            (if shouldCheckCRLF s \<and> endWithCR_str val0
             then do { headOfRight \<leftarrow> nodeCharCodeAt (buffers s) p rem;
                       if headOfRight = Some 10
                       then do { q \<leftarrow> dropLeadingLF s newRightPiece0; Some (q, val0 @ [10]) }
                       else Some (newRightPiece0, val0) }
             else Some (newRightPiece0, val0));
          (val, s1, nodesToDel) \<leftarrow>
            (if shouldCheckCRLF s \<and> startWithLF_str val1
             then do { tailOfLeft \<leftarrow> nodeCharCodeAt (buffers s) p (rem - 1);
                       if tailOfLeft = Some 13
                       then do { previousPos \<leftarrow> positionInBuffer (buffers s) p (rem - 1);
                                 s' \<leftarrow> deleteNodeTail s z previousPos;
                                 p' \<leftarrow> pieceOf s' z;
                                 Some (13 # val1, s', if plength p' = 0 then [z] else []) }
                       else do { s' \<leftarrow> deleteNodeTail s z insertPosInBuffer;
                                 Some (val1, s', []) } }
             else do { s' \<leftarrow> deleteNodeTail s z insertPosInBuffer; Some (val1, s', []) });
          (newPieces, s2) \<leftarrow> createNewPieces s1 val;
          s3 \<leftarrow> (if plength newRightPiece > 0
                  then map_option snd (rbInsertRight s2 (Some z) newRightPiece)
                  else Some s2);
          (tmpNode, s4) \<leftarrow> insertPiecesRight s3 z newPieces;
          deleteNodes s4 nodesToDel }"

definition insertPT :: "PieceTreeBase \<Rightarrow> int \<Rightarrow> jsstring \<Rightarrow> bool \<Rightarrow> PieceTreeBase option" where
  "insertPT s0 offset val eolNormalized =
     (let s = s0\<lparr>EOLNormalized := EOLNormalized s0 \<and> eolNormalized, lastVisitedLine := (0, [])\<rparr>
      in if root s \<noteq> SENTINEL then
           do { (npo, s1) \<leftarrow> nodeAt s offset;
                np \<leftarrow> npo;
                p \<leftarrow> pieceOf s1 (node np);
                insertPosInBuffer \<leftarrow> positionInBuffer (buffers s1) p (remainder np);
                if bufferIndex p = 0 \<and>
                   line (pend p) = line (lastChangeBufferPos s1) \<and>
                   column (pend p) = column (lastChangeBufferPos s1) \<and>
                   offset = nodeStartOffset np + plength p \<and>
                   int (length val) < AverageBufferSize
                then do { s2 \<leftarrow> appendToNode s1 (node np) val;
                          Some (computeBufferMetadata s2) }
                else if offset = nodeStartOffset np
                then do { s2 \<leftarrow> insertContentToNodeLeft s1 val (node np);
                          Some (computeBufferMetadata (validateCache s2 offset)) }
                else if offset < nodeStartOffset np + plength p
                then do { s2 \<leftarrow> insertIntoNode s1 val (node np) (remainder np) insertPosInBuffer;
                          Some (computeBufferMetadata s2) }
                else do { s2 \<leftarrow> insertContentToNodeRight s1 val (node np);
                          Some (computeBufferMetadata s2) } }
         else
           do { (pieces, s1) \<leftarrow> createNewPieces s val;
                firstPiece \<leftarrow> at pieces 0;
                (nd, s2) \<leftarrow> rbInsertLeft s1 None firstPiece;
                (nd', s3) \<leftarrow> insertPiecesRight s2 nd (tl pieces);
                Some (computeBufferMetadata s3) })"

subsection \<open>Deletion\<close>

definition shrinkNode ::
  "PieceTreeBase \<Rightarrow> nat \<Rightarrow> BufferCursor \<Rightarrow> BufferCursor \<Rightarrow> PieceTreeBase option" where
  "shrinkNode s z st en =
     do { p \<leftarrow> pieceOf s z;
          newLineFeedCnt \<leftarrow> getLineFeedCnt (buffers s) (bufferIndex p) (pstart p) st;
          a \<leftarrow> offsetInBuffer (buffers s) (bufferIndex p) st;
          b \<leftarrow> offsetInBuffer (buffers s) (bufferIndex p) (pstart p);
          let s1 = replacePiece s z
                     (newPiece (bufferIndex p) (pstart p) st newLineFeedCnt (a - b))
                     ((a - b) - plength p) (newLineFeedCnt - lineFeedCnt p);
          lfc \<leftarrow> getLineFeedCnt (buffers s1) (bufferIndex p) en (pend p);
          c \<leftarrow> offsetInBuffer (buffers s1) (bufferIndex p) (pend p);
          d \<leftarrow> offsetInBuffer (buffers s1) (bufferIndex p) en;
          (newNode, s2) \<leftarrow> rbInsertRight s1 (Some z) (newPiece (bufferIndex p) en (pend p) lfc (c - d));
          validateCRLFWithPrevNode s2 (Some newNode) }"

text \<open>The identities of the nodes strictly between two nodes, in document order: the
  loop from \<open>startNode.next()\<close> up to the end node or the sentinel.\<close>

definition nodesBetween :: "tree \<Rightarrow> nat \<Rightarrow> nat \<Rightarrow> nat list" where
  "nodesBetween t a b = takeWhile (\<lambda>x. x \<noteq> b) (tl (dropWhile (\<lambda>x. x \<noteq> a) (nodeIds t)))"

definition deletePT :: "PieceTreeBase \<Rightarrow> int \<Rightarrow> int \<Rightarrow> PieceTreeBase option" where
  "deletePT s0 offset cnt =
     (let s = s0\<lparr>lastVisitedLine := (0, [])\<rparr>
      in if cnt \<le> 0 \<or> root s = SENTINEL then Some s
         else
           do { (spo, s1) \<leftarrow> nodeAt s offset;
                (epo, s2) \<leftarrow> nodeAt s1 (offset + cnt);
                sp \<leftarrow> spo;
                ep \<leftarrow> epo;
                if node sp = node ep then
                  do { p \<leftarrow> pieceOf s2 (node sp);
                       startSplitPosInBuffer \<leftarrow> positionInBuffer (buffers s2) p (remainder sp);
                       endSplitPosInBuffer \<leftarrow> positionInBuffer (buffers s2) p (remainder ep);
                       if offset = nodeStartOffset sp then
                         (if cnt = plength p then
                            do { s3 \<leftarrow> rbDeleteNode s2 (node sp);
                                 s4 \<leftarrow> validateCRLFWithPrevNode s3 (nextNode (root s2) (Some (node sp)));
                                 Some (computeBufferMetadata s4) }
                          else
                            do { s3 \<leftarrow> deleteNodeHead s2 (node sp) endSplitPosInBuffer;
                                 s4 \<leftarrow> validateCRLFWithPrevNode (validateCache s3 offset) (Some (node sp));
                                 Some (computeBufferMetadata s4) })
                       else if offset + cnt = nodeStartOffset sp + plength p then
                         do { s3 \<leftarrow> deleteNodeTail s2 (node sp) startSplitPosInBuffer;
                              s4 \<leftarrow> validateCRLFWithNextNode s3 (Some (node sp));
                              Some (computeBufferMetadata s4) }
                       else
                         do { s3 \<leftarrow> shrinkNode s2 (node sp) startSplitPosInBuffer endSplitPosInBuffer;
                              Some (computeBufferMetadata s3) } }
                else
                  do { p \<leftarrow> pieceOf s2 (node sp);
                       startSplitPosInBuffer \<leftarrow> positionInBuffer (buffers s2) p (remainder sp);
                       s3 \<leftarrow> deleteNodeTail s2 (node sp) startSplitPosInBuffer;
                       let s4 = validateCache s3 offset;
                       ps \<leftarrow> pieceOf s4 (node sp);
                       q \<leftarrow> pieceOf s4 (node ep);
                       endSplitPosInBuffer \<leftarrow> positionInBuffer (buffers s4) q (remainder ep);
                       s5 \<leftarrow> deleteNodeHead s4 (node ep) endSplitPosInBuffer;
                       pe \<leftarrow> pieceOf s5 (node ep);
                       let nodesToDel = (if plength ps = 0 then [node sp] else []) @
                                        (if plength pe = 0 then [node ep] else []) @
                                        nodesBetween (root s5) (node sp) (node ep);
                       let prev = (if plength ps = 0 then prevNode (root s5) (Some (node sp))
                                   else Some (node sp));
                       s6 \<leftarrow> deleteNodes s5 nodesToDel;
                       s7 \<leftarrow> validateCRLFWithNextNode s6 prev;
                       Some (computeBufferMetadata s7) } })"


subsection \<open>Reading the content\<close>

text \<open>\<open>iterate\<close> visits the nodes in order and the sentinel at every absent child;
  it stops when the callback returns false.\<close>

fun iterate ::
  "tree \<Rightarrow> (TreeNode option \<Rightarrow> 'a \<Rightarrow> (bool \<times> 'a) option) \<Rightarrow> 'a \<Rightarrow> (bool \<times> 'a) option" where
  "iterate SENTINEL callback acc = callback None acc"
| "iterate (Node l n r) callback acc =
     do { (leftRet, acc1) \<leftarrow> iterate l callback acc;
          if \<not> leftRet then Some (leftRet, acc1)
          else do { (ret, acc2) \<leftarrow> callback (Some n) acc1;
                    if ret then iterate r callback acc2 else Some (False, acc2) } }"

definition getNodeContent :: "StringBuffer list \<Rightarrow> TreeNode option \<Rightarrow> jsstring option" where
  "getNodeContent bufs x =
     (case x of None \<Rightarrow> Some [] | Some n \<Rightarrow> getPieceContent bufs (piece n))"

definition getContentOfSubTree :: "PieceTreeBase \<Rightarrow> tree \<Rightarrow> jsstring option" where
  "getContentOfSubTree s t =
     map_option snd
       (iterate t (\<lambda>x str. do { c \<leftarrow> getNodeContent (buffers s) x; Some (True, str @ c) }) [])"

definition getLinesRawContent :: "PieceTreeBase \<Rightarrow> jsstring option" where
  "getLinesRawContent s = getContentOfSubTree s (root s)"

text \<open>Modelled from the spec: \<open>offsetOfNode\<close> walks from the node to the root along
  the parent links and adds, wherever it comes up from a right child, the parent's
  \<open>size_left\<close> and length; the same sum is collected here on the way down.\<close>

fun offsetOfNode :: "tree \<Rightarrow> nat \<Rightarrow> int" where
  "offsetOfNode SENTINEL z = 0"
| "offsetOfNode (Node l n r) z =
     (if nid n = z then size_left n
      else if hasNode z l then offsetOfNode l z
      else size_left n + plength (piece n) + offsetOfNode r z)"

definition nodesAfter :: "tree \<Rightarrow> nodeRef \<Rightarrow> TreeNode list" where
  "nodesAfter t x =
     (case x of None \<Rightarrow> [] | Some z \<Rightarrow> tl (dropWhile (\<lambda>n. nid n \<noteq> z) (inorder t)))"

datatype nodeAt2_result = Found NodePosition | Continue nodeRef int

fun nodeAt2_loop ::
  "StringBuffer list \<Rightarrow> tree \<Rightarrow> int \<Rightarrow> int \<Rightarrow> int \<Rightarrow> nodeAt2_result option" where
  "nodeAt2_loop bufs SENTINEL lineNum col nso = Some (Continue None col)"
| "nodeAt2_loop bufs (Node l n r) lineNum col nso =
     (if l \<noteq> SENTINEL \<and> lf_left n \<ge> lineNum - 1
        then nodeAt2_loop bufs l lineNum col nso
      else if lf_left n + lineFeedCnt (piece n) > lineNum - 1
        then do { prevAcc \<leftarrow> getAccumulatedValue bufs (piece n) (lineNum - lf_left n - 2);
                  acc \<leftarrow> getAccumulatedValue bufs (piece n) (lineNum - lf_left n - 1);
                  Some (Found \<lparr> node = nid n, remainder = min (prevAcc + col - 1) acc,
                               nodeStartOffset = nso + size_left n \<rparr>) }
      else if lf_left n + lineFeedCnt (piece n) = lineNum - 1
        then do { prevAcc \<leftarrow> getAccumulatedValue bufs (piece n) (lineNum - lf_left n - 2);
                  if prevAcc + col - 1 \<le> plength (piece n)
                  then Some (Found \<lparr> node = nid n, remainder = prevAcc + col - 1,
                                    nodeStartOffset = nso \<rparr>)
                  else Some (Continue (Some (nid n)) (col - (plength (piece n) - prevAcc))) }
      else nodeAt2_loop bufs r (lineNum - (lf_left n + lineFeedCnt (piece n))) col
             (nso + size_left n + plength (piece n)))"

fun nodeAt2_scan ::
  "StringBuffer list \<Rightarrow> tree \<Rightarrow> TreeNode list \<Rightarrow> int \<Rightarrow> NodePosition option option" where
  "nodeAt2_scan bufs t [] col = Some None"
| "nodeAt2_scan bufs t (n # ns) col =
     (if lineFeedCnt (piece n) > 0
        then do { acc \<leftarrow> getAccumulatedValue bufs (piece n) 0;
                  Some (Some \<lparr> node = nid n, remainder = min (col - 1) acc,
                               nodeStartOffset = offsetOfNode t (nid n) \<rparr>) }
      else if plength (piece n) \<ge> col - 1
        then Some (Some \<lparr> node = nid n, remainder = col - 1,
                          nodeStartOffset = offsetOfNode t (nid n) \<rparr>)
      else nodeAt2_scan bufs t ns (col - plength (piece n)))"

text \<open>\<open>nodeAt2\<close> returns \<open>null\<close> (the inner \<open>None\<close>) when the column lies after the
  last piece of the document.\<close>

definition nodeAt2 :: "PieceTreeBase \<Rightarrow> int \<Rightarrow> int \<Rightarrow> NodePosition option option" where
  "nodeAt2 s lineNum col =
     do { r \<leftarrow> nodeAt2_loop (buffers s) (root s) lineNum col 0;
          (case r of
             Found np \<Rightarrow> Some (Some np)
           | Continue x col' \<Rightarrow> nodeAt2_scan (buffers s) (root s) (nodesAfter (root s) x) col') }"

fun getValueInRange2_scan ::
  "StringBuffer list \<Rightarrow> TreeNode list \<Rightarrow> NodePosition \<Rightarrow> jsstring \<Rightarrow> jsstring option" where
  "getValueInRange2_scan bufs [] endPosition ret = Some ret"
| "getValueInRange2_scan bufs (x # xs) endPosition ret =
     do { b \<leftarrow> bufAt bufs (bufferIndex (piece x));
          startOffset \<leftarrow> offsetInBuffer bufs (bufferIndex (piece x)) (pstart (piece x));
          if nid x = node endPosition
          then Some (ret @ substring (buffer b) startOffset (startOffset + remainder endPosition))
          else getValueInRange2_scan bufs xs endPosition
                 (ret @ substr (buffer b) startOffset (plength (piece x))) }"

definition getValueInRange2 ::
  "PieceTreeBase \<Rightarrow> NodePosition \<Rightarrow> NodePosition \<Rightarrow> jsstring option" where
  "getValueInRange2 s startPosition endPosition =
     do { p \<leftarrow> pieceOf s (node startPosition);
          b \<leftarrow> bufAt (buffers s) (bufferIndex p);
          startOffset \<leftarrow> offsetInBuffer (buffers s) (bufferIndex p) (pstart p);
          if node startPosition = node endPosition
          then Some (substring (buffer b) (startOffset + remainder startPosition)
                       (startOffset + remainder endPosition))
          else getValueInRange2_scan (buffers s)
                 (nodesAfter (root s) (Some (node startPosition))) endPosition
                 (substring (buffer b) (startOffset + remainder startPosition)
                    (startOffset + plength p)) }"

record Range =
  startLineNumber :: int
  startColumn :: int
  endLineNumber :: int
  endColumn :: int

text \<open>The constructor of \<open>Range\<close> puts the two positions in order.\<close>

definition newRange :: "int \<Rightarrow> int \<Rightarrow> int \<Rightarrow> int \<Rightarrow> Range" where
  "newRange sl sc el ec =
     (if sl > el \<or> (sl = el \<and> sc > ec)
      then \<lparr> startLineNumber = el, startColumn = ec, endLineNumber = sl, endColumn = sc \<rparr>
      else \<lparr> startLineNumber = sl, startColumn = sc, endLineNumber = el, endColumn = ec \<rparr>)"

text \<open>\<open>value.replace(/\r\n|\r|\n/g, eol)\<close>.\<close>

fun replaceEOL :: "jsstring \<Rightarrow> jsstring \<Rightarrow> jsstring" where
  "replaceEOL [] e = []"
| "replaceEOL (c # cs) e =
     (if c = 13 then (case cs of d # ds \<Rightarrow> if d = 10 then e @ replaceEOL ds e else e @ replaceEOL cs e
                              | [] \<Rightarrow> e)
      else if c = 10 then e @ replaceEOL cs e
      else c # replaceEOL cs e)"

text \<open>\<open>getValueInRange\<close> of \<open>PieceTreeBase\<close>; the optional argument \<open>eol\<close> is absent
  (\<open>None\<close>) or a string, which counts as given when it is not empty.\<close>

definition getValueInRange :: "PieceTreeBase \<Rightarrow> Range \<Rightarrow> jsstring option \<Rightarrow> jsstring option" where
  "getValueInRange s rng eol =
     (if startLineNumber rng = endLineNumber rng \<and> startColumn rng = endColumn rng
      then Some []
      else do {
        startPositionO \<leftarrow> nodeAt2 s (startLineNumber rng) (startColumn rng);
        endPositionO \<leftarrow> nodeAt2 s (endLineNumber rng) (endColumn rng);
        startPosition \<leftarrow> startPositionO;
        endPosition \<leftarrow> endPositionO;
        val \<leftarrow> getValueInRange2 s startPosition endPosition;
        (case eol of
           None \<Rightarrow> Some val
         | Some e \<Rightarrow>
             if e = [] then Some val
             else if e \<noteq> EOL s \<or> \<not> EOLNormalized s then Some (replaceEOL val e)
             else Some val)
      })"

subsection \<open>Snapshots\<close>

text \<open>A snapshot keeps the pieces of the tree at its creation, a reference to the tree
  (so \<open>read\<close> takes the state the tree has when it is called) and the index of the next
  piece.\<close>

record PieceTreeSnapshot =
  sn_pieces :: "Piece list"
  sn_index :: int
  sn_BOM :: jsstring

definition createSnapshot :: "PieceTreeBase \<Rightarrow> jsstring \<Rightarrow> PieceTreeSnapshot option" where
  "createSnapshot s bom =
     (if root s \<noteq> SENTINEL
      then do { (ret, ps) \<leftarrow>
                  iterate (root s)
                    (\<lambda>x ps. Some (True, case x of None \<Rightarrow> ps | Some n \<Rightarrow> ps @ [piece n])) [];
                Some \<lparr> sn_pieces = ps, sn_index = 0, sn_BOM = bom \<rparr> }
      else Some \<lparr> sn_pieces = [], sn_index = 0, sn_BOM = bom \<rparr>)"

text \<open>\<open>read\<close> returns a chunk, or \<open>null\<close> (the inner \<open>None\<close>).\<close>

definition read :: "PieceTreeBase \<Rightarrow> PieceTreeSnapshot \<Rightarrow> (jsstring option \<times> PieceTreeSnapshot) option" where
  "read s sn =
     (if length (sn_pieces sn) = 0 then
        (if sn_index sn = 0 then Some (Some (sn_BOM sn), sn\<lparr>sn_index := sn_index sn + 1\<rparr>)
         else Some (None, sn))
      else if sn_index sn > int (length (sn_pieces sn)) - 1 then Some (None, sn)
      else do { p \<leftarrow> at (sn_pieces sn) (sn_index sn);
                c \<leftarrow> getPieceContent (buffers s) p;
                if sn_index sn = 0
                then Some (Some (sn_BOM sn @ c), sn\<lparr>sn_index := sn_index sn + 1\<rparr>)
                else Some (Some c, sn\<lparr>sn_index := sn_index sn + 1\<rparr>) })"

subsection \<open>Construction\<close>

text \<open>\<open>create\<close> makes one piece and one buffer of every chunk that is not empty. (A
  chunk comes with its line starts here; \<open>create\<close> computes them with
  \<open>createLineStartsFast\<close> for a chunk that has none.)\<close>

fun create_loop ::
  "PieceTreeBase \<Rightarrow> StringBuffer list \<Rightarrow> nat \<Rightarrow> nodeRef \<Rightarrow> PieceTreeBase option" where
  "create_loop s [] i lastNode = Some s"
| "create_loop s (c # cs) i lastNode =
     (if length (buffer c) > 0 then
        do { l \<leftarrow> at (bufLineStarts c) (int (length (bufLineStarts c)) - 1);
             (z, s') \<leftarrow> rbInsertRight (s\<lparr>buffers := buffers s @ [c]\<rparr>) lastNode
                          (newPiece (i + 1) \<lparr> line = 0, column = 0 \<rparr>
                             \<lparr> line = int (length (bufLineStarts c)) - 1,
                               column = int (length (buffer c)) - l \<rparr>
                             (int (length (bufLineStarts c)) - 1) (int (length (buffer c))));
             create_loop s' cs (i + 1) (Some z) }
      else create_loop s cs (i + 1) lastNode)"

definition emptyPieceTree :: "jsstring \<Rightarrow> bool \<Rightarrow> PieceTreeBase" where
  "emptyPieceTree eol eolNormalized =
     \<lparr> root = SENTINEL, buffers = [\<lparr> buffer = [], bufLineStarts = [0] \<rparr>],
       lineCnt = 1, docLength = 0, EOL = eol, EOLLength = int (length eol),
       EOLNormalized = eolNormalized, lastChangeBufferPos = \<lparr> line = 0, column = 0 \<rparr>,
       searchCache = \<lparr> limit = 1, cache = [] \<rparr>, lastVisitedLine = (0, []),
       nextId = 0 \<rparr>"

definition create :: "StringBuffer list \<Rightarrow> jsstring \<Rightarrow> bool \<Rightarrow> PieceTreeBase option" where
  "create chunks eol eolNormalized =
     map_option computeBufferMetadata (create_loop (emptyPieceTree eol eolNormalized) chunks 0 None)"

text \<open>Two ways to a document: loaded as one chunk, and typed into the empty buffer.\<close>

definition loaded :: "jsstring \<Rightarrow> jsstring \<Rightarrow> PieceTreeBase option" where
  "loaded txt eol =
     create [\<lparr> buffer = txt, bufLineStarts = createLineStartsFast txt True \<rparr>] eol False"

definition typed :: "jsstring \<Rightarrow> PieceTreeBase option" where
  "typed txt = do { s \<leftarrow> create [] [10] False; insertPT s 0 txt False }"


section \<open>The text buffer\<close>

text \<open>\<open>PieceTreeTextBuffer\<close> wraps a piece tree. Its methods carry the suffix \<open>_TB\<close>
  where the piece tree has a method of the same name.\<close>

record PieceTreeTextBuffer =
  pieceTree :: PieceTreeBase
  BOM :: jsstring
  mightContainRTL :: bool
  mightContainUnusualLineTerminators :: bool
  mightContainNonBasicASCII :: bool

datatype EndOfLinePreference = TextDefined | LF | CRLF


definition getEOL :: "PieceTreeBase \<Rightarrow> jsstring" where
  "getEOL s = EOL s"

definition getEOL_TB :: "PieceTreeTextBuffer \<Rightarrow> jsstring" where
  "getEOL_TB tb = getEOL (pieceTree tb)"

definition getEndOfLine :: "PieceTreeTextBuffer \<Rightarrow> EndOfLinePreference \<Rightarrow> jsstring" where
  "getEndOfLine tb eol =
     (case eol of LF \<Rightarrow> [10] | CRLF \<Rightarrow> [13, 10] | TextDefined \<Rightarrow> getEOL_TB tb)"

definition isEmpty :: "Range \<Rightarrow> bool" where
  "isEmpty rng \<longleftrightarrow> startLineNumber rng = endLineNumber rng \<and> startColumn rng = endColumn rng"

definition getOffsetAt_TB :: "PieceTreeTextBuffer \<Rightarrow> int \<Rightarrow> int \<Rightarrow> int option" where
  "getOffsetAt_TB tb l c = getOffsetAt (pieceTree tb) l c"

definition getValueInRange_TB ::
  "PieceTreeTextBuffer \<Rightarrow> Range \<Rightarrow> EndOfLinePreference \<Rightarrow> jsstring option" where
  "getValueInRange_TB tb rng eol =
     (if isEmpty rng then Some []
      else getValueInRange (pieceTree tb) rng (Some (getEndOfLine tb eol)))"

definition getValueLengthInRange_TB ::
  "PieceTreeTextBuffer \<Rightarrow> Range \<Rightarrow> EndOfLinePreference \<Rightarrow> int option" where
  "getValueLengthInRange_TB tb rng eol =
     (if isEmpty rng then Some 0
      else if startLineNumber rng = endLineNumber rng then Some (endColumn rng - startColumn rng)
      else do {
        startOffset \<leftarrow> getOffsetAt_TB tb (startLineNumber rng) (startColumn rng);
        endOffset \<leftarrow> getOffsetAt_TB tb (endLineNumber rng) (endColumn rng);
        let desiredEOL = getEndOfLine tb eol;
        let actualEOL = getEOL_TB tb;
        let eolOffsetCompensation =
              (if length desiredEOL \<noteq> length actualEOL
               then (int (length desiredEOL) - int (length actualEOL))
                      * (endLineNumber rng - startLineNumber rng)
               else 0);
        Some (endOffset - startOffset + eolOffsetCompensation)
      })"

text \<open>
  Claim C10. For every state of the buffer, every empty range (the start line and column
  equal to the end line and column) and every end-of-line argument, \<open>getValueInRange\<close>
  returns the empty string, for the piece tree and for the text buffer, and
  \<open>getValueLengthInRange\<close> returns 0. The results do not depend on the state: the tree
  is not consulted.
\<close>

theorem emptyRange_value:
  assumes "startLineNumber rng = endLineNumber rng" and "startColumn rng = endColumn rng"
  shows "getValueInRange s rng eol = Some [] \<and>
         getValueInRange_TB tb rng pref = Some [] \<and>
         getValueLengthInRange_TB tb rng pref = Some 0"
  using assms by (simp add: getValueInRange_def getValueInRange_TB_def
      getValueLengthInRange_TB_def isEmpty_def)


text \<open>The theorem at the empty range (3,7)-(3,7) of an empty buffer.\<close>

theorem emptyRange_value_witness:
  "startLineNumber (newRange 3 7 3 7) = endLineNumber (newRange 3 7 3 7) \<and>
   startColumn (newRange 3 7 3 7) = endColumn (newRange 3 7 3 7) \<and>
   getValueInRange (emptyPieceTree [10] False) (newRange 3 7 3 7) None = Some [] \<and>
   getValueInRange_TB
     \<lparr> pieceTree = emptyPieceTree [10] False, BOM = [], mightContainRTL = False,
       mightContainUnusualLineTerminators = False, mightContainNonBasicASCII = False \<rparr>
     (newRange 3 7 3 7) CRLF = Some [] \<and>
   getValueLengthInRange_TB
     \<lparr> pieceTree = emptyPieceTree [10] False, BOM = [], mightContainRTL = False,
       mightContainUnusualLineTerminators = False, mightContainNonBasicASCII = False \<rparr>
     (newRange 3 7 3 7) CRLF = Some 0"
proof -
  have h1: "startLineNumber (newRange 3 7 3 7) = endLineNumber (newRange 3 7 3 7)"
    by (simp add: newRange_def)
  have h2: "startColumn (newRange 3 7 3 7) = endColumn (newRange 3 7 3 7)"
    by (simp add: newRange_def)
  show ?thesis
    using emptyRange_value[OF h1 h2] h1 h2 by simp
qed

section \<open>Scenarios\<close>

text \<open>
  Claim C7, as the code has it. The document \<open>"ab\r\ncd"\<close> (6 characters, 2 lines),
  loaded as one chunk; after \<open>insert(2, "X")\<close> the content is \<open>"abX\r\ncd"\<close>,
  \<open>getLineCount()\<close> is 2 and \<open>getOffsetAt(2, 1)\<close> is 5: the second line starts after
  the five characters \<open>"abX\r\n"\<close>.
\<close>

theorem scenario_insert_X:
  "do { s0 \<leftarrow> loaded [97, 98, 13, 10, 99, 100] [13, 10];
        c0 \<leftarrow> getLinesRawContent s0;
        s \<leftarrow> insertPT s0 2 [88] False;
        c \<leftarrow> getLinesRawContent s;
        off \<leftarrow> getOffsetAt s 2 1;
        Some (c0, getLength s0, getLineCount s0, c, getLineCount s, off) }
   = Some ([97, 98, 13, 10, 99, 100], 6, 2, [97, 98, 88, 13, 10, 99, 100], 2, 5)"
  by code_simp

text \<open>Claim C7 states that \<open>getOffsetAt(2, 1)\<close> returns 4; it does not.\<close>

theorem scenario_insert_X_counterexample:
  "do { s0 \<leftarrow> loaded [97, 98, 13, 10, 99, 100] [13, 10];
        s \<leftarrow> insertPT s0 2 [88] False;
        getOffsetAt s 2 1 } \<noteq> Some 4"
  by code_simp

text \<open>
  Claim C5 at a failing input. \<open>"a\r"\<close> is typed into the empty buffer and a snapshot is
  created; then \<open>"\n"\<close> is typed at the end. The piece of the snapshot ends at line 1,
  column 0 of the change buffer; \<open>appendToNode\<close> replaces the start of that line (offset
  2, after the \<open>\r\<close>) by offset 3 (after the \<open>\r\n\<close>), so the snapshot reads
  \<open>"a\r\n"\<close>, not the content \<open>"a\r"\<close> of its creation. The second \<open>read\<close> returns
  \<open>null\<close>.
\<close>

theorem snapshot_after_edit:
  "do { s1 \<leftarrow> typed [97, 13];
        c1 \<leftarrow> getLinesRawContent s1;
        sn0 \<leftarrow> createSnapshot s1 [];
        s2 \<leftarrow> insertPT s1 2 [10] False;
        (r1, sn1) \<leftarrow> read s2 sn0;
        (r2, sn2) \<leftarrow> read s2 sn1;
        Some (c1, r1, r2) }
   = Some ([97, 13], Some [97, 13, 10], None)"
  by code_simp

text \<open>
  Claim C3 at a failing input. \<open>"\r\n"\<close> is typed into the empty buffer: 2 lines. Then
  the empty string is inserted at offset 1, between the \<open>\r\<close> and the \<open>\n\<close>: the piece
  is split in two around an empty piece, the content is still \<open>"\r\n"\<close>, with one line
  terminator, and \<open>getLineCount()\<close> is 3.
\<close>

theorem empty_insert_lineCount:
  "do { s1 \<leftarrow> typed [13, 10];
        s2 \<leftarrow> insertPT s1 1 [] False;
        c \<leftarrow> getLinesRawContent s2;
        Some (getLineCount s1, c, getLineCount s2) }
   = Some (2, [13, 10], 3)"
  by code_simp

text \<open>
  Claim C9 at a failing input. \<open>"\r"\<close> is typed into the empty buffer, a second
  \<open>"\r"\<close> is inserted before it, the empty string is inserted at the end, and the
  character at offset 1 is deleted. The content is \<open>"\r"\<close>, the last character of the
  change buffer \<open>"\r\r"\<close>, and \<open>getLineCount()\<close> is 2; the empty piece of the empty
  insertion is the last node. Then \<open>"\n"\<close> is inserted at the end: it is appended to the
  empty piece, which does not end with \<open>\r\<close>, so the two characters are not merged,
  and \<open>getLineCount()\<close> is 3 for the content \<open>"\r\n"\<close>.
\<close>

theorem lf_after_cr_lineCount:
  "do { s0 \<leftarrow> create [] [10] False;
        s1 \<leftarrow> insertPT s0 0 [13] False;
        s2 \<leftarrow> insertPT s1 0 [13] False;
        s3 \<leftarrow> insertPT s2 2 [] False;
        s4 \<leftarrow> deletePT s3 1 1;
        c4 \<leftarrow> getLinesRawContent s4;
        b \<leftarrow> bufAt (buffers s4) 0;
        s5 \<leftarrow> insertPT s4 1 [10] False;
        c5 \<leftarrow> getLinesRawContent s5;
        Some (c4, buffer b, getLineCount s4, c5, getLineCount s5) }
   = Some ([13], [13, 13], 2, [13, 10], 3)"
  by code_simp

text \<open>
  Claim C8 at a failing input, the document \<open>"a"\<close>. \<open>getPositionAt(50)\<close> is clamped to
  the end of the document, line 1 and column 2. A column after the end of the last line is
  not clamped: \<open>getOffsetAt(1, 100)\<close> returns 99, an offset after the document of length
  1, and \<open>getValueInRange\<close> of the range from (1,1) to (1,100) raises a \<open>TypeError\<close>
  (\<open>nodeAt2\<close> returns \<open>null\<close> for the end of the range, and \<open>getValueInRange\<close> reads
  the node of it).
\<close>

theorem column_after_last_line:
  "do { s \<leftarrow> typed [97];
        c \<leftarrow> getLinesRawContent s;
        p \<leftarrow> getPositionAt s 50;
        Some (c, getLength s, p, getOffsetAt s 1 100, nodeAt2 s 1 100,
              getValueInRange s (newRange 1 1 1 100) None) }
   = Some ([97], 1, \<lparr> lineNumber = 1, posColumn = 2 \<rparr>, Some 99, Some None, None)"
  by code_simp

theorem column_after_last_line_witness:
  "\<exists>s. typed [97] = Some s \<and> getLinesRawContent s = Some [97] \<and> getLength s = 1 \<and>
        getPositionAt s 50 = Some \<lparr> lineNumber = 1, posColumn = 2 \<rparr> \<and>
        getOffsetAt s 1 100 = Some 99 \<and> nodeAt2 s 1 100 = Some None \<and>
        getValueInRange s (newRange 1 1 1 100) None = None"
  using column_after_last_line by (auto simp add: bind_eq_Some_conv)

section \<open>Batches of edits\<close>

subsection \<open>Positions and ranges\<close>



definition getStartPosition :: "Range \<Rightarrow> Position" where
  "getStartPosition rng = newPosition (startLineNumber rng) (startColumn rng)"

definition getEndPosition :: "Range \<Rightarrow> Position" where
  "getEndPosition rng = newPosition (endLineNumber rng) (endColumn rng)"


subsection \<open>Edit operations\<close>

datatype StringEOL = EOL_Unknown | EOL_Invalid | EOL_LF | EOL_CRLF










subsection \<open>Overlap\<close>















lemma position_simps [simp]:
  "lineNumber (getStartPosition r) = startLineNumber r"
  "posColumn (getStartPosition r) = startColumn r"
  "lineNumber (getEndPosition r) = endLineNumber r"
  "posColumn (getEndPosition r) = endColumn r"
  by (simp_all add: getStartPosition_def getEndPosition_def newPosition_def)












text \<open>The theorem at two batches on the document \<open>hello world\<close>: the ranges (1,1)-(1,5)
  and (1,3)-(1,8), which overlap, and the ranges (1,1)-(1,5) and (1,5)-(1,8), which touch.
  The first batch is rejected with \<open>OverlappingRanges\<close>, the second is accepted, and the
  buffer is the same after both.\<close>

definition sampleTree :: PieceTreeBase where
  "sampleTree =
     (case loaded [104, 101, 108, 108, 111, 32, 119, 111, 114, 108, 100] [10] of
        Some s \<Rightarrow> s
      | None \<Rightarrow> emptyPieceTree [10] False)"




lemma sampleTree_content:
  "getLinesRawContent sampleTree = Some [104, 101, 108, 108, 111, 32, 119, 111, 114, 108, 100]"
  by code_simp




end
